theory Spec2Isabelle
  imports Main "HOL-Library.Word"
begin

unbundle bit_operations_syntax

section \<open>Python values, dictionaries and errors\<close>

text \<open>
  The resource classes of \<^verbatim>\<open>gitlab/v4/objects\<close> pass Python values around without
  looking into them, except for the identifiers that go into a URL. A value is one of the
  scalar kinds that the code distinguishes (\<^verbatim>\<open>None\<close>, \<^verbatim>\<open>bool\<close>, \<^verbatim>\<open>int\<close>, \<^verbatim>\<open>str\<close>, and the
  \<^verbatim>\<open>str\<close> subclass \<^verbatim>\<open>EncodedId\<close>) or any other object that is not bytes-like (a float,
  a list, a dictionary), which is carried as the text that \<^verbatim>\<open>str()\<close> gives for it. A
  \<^verbatim>\<open>str\<close> is the list of the bytes of its UTF-8 encoding.
  A \<^verbatim>\<open>dict\<close> is an association list in insertion order; a key is looked up with
  \<open>map_of\<close>, so the first binding of a key is the one that counts.
\<close>

type_synonym byte = "8 word"
type_synonym bytes = "byte list"

datatype pyval =
    PNone
  | PBool bool
  | PInt int
  | PStr string
  | PEncodedId string
  | POther string

type_synonym dict = "(string \<times> pyval) list"

datatype gitlab_error_kind =
    GitlabHttpError
  | GitlabAuthenticationError
  | GitlabParsingError
  | GitlabGetError
  | GitlabHeadError
  | GitlabCreateError
  | GitlabUpdateError
  | GitlabDeleteError
  | GitlabListError
  | GitlabJobCancelError
  | GitlabJobRetryError
  | GitlabJobPlayError
  | GitlabJobEraseError

text \<open>
  A \<open>GitlabError\<close> carries its kind, the error message, the HTTP status and the
  response body. The other errors are Python's own.
\<close>

datatype error =
    GitlabError gitlab_error_kind string int bytes
  | TypeError
  | ValueError
  | KeyError string
  | AttributeError string
  | MissingAttributes "string list"
  | BinasciiError

subsection \<open>Dictionary operations\<close>

definition dict_in :: "string \<Rightarrow> dict \<Rightarrow> bool" where
  "dict_in k d = (map_of d k \<noteq> None)"

definition dict_set :: "string \<Rightarrow> pyval \<Rightarrow> dict \<Rightarrow> dict" where
  "dict_set k v d = (if dict_in k d then map (\<lambda>(k', v'). if k' = k then (k', v) else (k', v')) d
                     else d @ [(k, v)])"

definition dict_setdefault :: "string \<Rightarrow> pyval \<Rightarrow> dict \<Rightarrow> dict" where
  "dict_setdefault k v d = (if dict_in k d then d else d @ [(k, v)])"

definition dict_update :: "dict \<Rightarrow> dict \<Rightarrow> dict" where
  "dict_update d e = fold (\<lambda>(k, v). dict_set k v) e d"

definition dict_pop :: "string \<Rightarrow> dict \<Rightarrow> error + (pyval \<times> dict)" where
  "dict_pop k d = (case map_of d k of
                     None \<Rightarrow> Inl (KeyError k)
                   | Some v \<Rightarrow> Inr (v, filter (\<lambda>(k', v'). k' \<noteq> k) d))"

subsection \<open>Text of a value\<close>

text \<open>The decimal text of an integer, as \<^verbatim>\<open>str\<close> prints it.\<close>

definition digit_char :: "nat \<Rightarrow> char" where
  "digit_char d = ''0123456789'' ! (d mod 10)"

fun decimal_of_nat :: "nat \<Rightarrow> string" where
  "decimal_of_nat n =
     (if n < 10 then [digit_char n] else decimal_of_nat (n div 10) @ [digit_char n])"

declare decimal_of_nat.simps [simp del]

definition decimal_of_int :: "int \<Rightarrow> string" where
  "decimal_of_int i =
     (if 0 \<le> i then decimal_of_nat (nat i) else CHR ''-'' # decimal_of_nat (nat (- i)))"

text \<open>\<^verbatim>\<open>str(v)\<close>, which is what an f-string puts in place of \<^verbatim>\<open>{v}\<close>.\<close>

fun str_of :: "pyval \<Rightarrow> string" where
  "str_of PNone = ''None''"
| "str_of (PBool b) = (if b then ''True'' else ''False'')"
| "str_of (PInt i) = decimal_of_int i"
| "str_of (PStr s) = s"
| "str_of (PEncodedId s) = s"
| "str_of (POther s) = s"

subsection \<open>URL encoding\<close>

text \<open>
  \<^verbatim>\<open>urllib.parse.quote(s, safe="")\<close> of the standard library: the unreserved characters
  (letters, digits and \<^verbatim>\<open>_.-~\<close>) stay, every other byte becomes \<^verbatim>\<open>%XX\<close> with two
  upper-case hexadecimal digits.
\<close>

definition unreserved :: "char \<Rightarrow> bool" where
  "unreserved c = (c \<in> set ''ABCDEFGHIJKLMNOPQRSTUVWXYZabcdefghijklmnopqrstuvwxyz0123456789_.-~'')"

definition hexdigit :: "nat \<Rightarrow> char" where
  "hexdigit n = ''0123456789ABCDEF'' ! (n mod 16)"

definition quote_char :: "char \<Rightarrow> string" where
  "quote_char c =
     (if unreserved c then [c]
      else [CHR ''%'', hexdigit (of_char c div 16), hexdigit (of_char c mod 16)])"

definition quote :: "string \<Rightarrow> string" where
  "quote s = concat (map quote_char s)"

text \<open>
  Modelled from the spec: \<^verbatim>\<open>utils.EncodedId\<close> is not among the sources. The spec has the
  identifier URL-encoded in the request path. The model percent-encodes a \<^verbatim>\<open>str\<close> with
  no safe character, so that \<^verbatim>\<open>/\<close> is encoded too; an \<^verbatim>\<open>EncodedId\<close> is returned as it
  is, an \<^verbatim>\<open>int\<close> (and so a \<^verbatim>\<open>bool\<close>) keeps its text, and any other value is rejected
  with \<^verbatim>\<open>TypeError\<close>. The result is the text of the new \<^verbatim>\<open>EncodedId\<close>.
\<close>

fun EncodedId :: "pyval \<Rightarrow> error + string" where
  "EncodedId (PEncodedId s) = Inr s"
| "EncodedId (PStr s) = Inr (quote s)"
| "EncodedId (PInt i) = Inr (decimal_of_int i)"
| "EncodedId (PBool b) = Inr (str_of (PBool b))"
| "EncodedId PNone = Inl TypeError"
| "EncodedId (POther s) = Inl TypeError"

section \<open>The HTTP client\<close>

text \<open>
  The client (\<^verbatim>\<open>gitlab.Gitlab\<close>) is outside the sources. A call of one of its
  \<^verbatim>\<open>http_*\<close> methods is recorded with the arguments the resource classes pass: the
  path, the named arguments \<^verbatim>\<open>query_data\<close>, \<^verbatim>\<open>post_data\<close>, \<^verbatim>\<open>streamed\<close>, \<^verbatim>\<open>raw\<close> and
  \<^verbatim>\<open>iterator\<close> (\<open>None\<close> when the call does not pass them), and the remaining keyword
  arguments. The extra options \<^verbatim>\<open>**kwargs\<close> of a method never hold a name that is a
  parameter of that method, since Python binds such a name to the parameter.
\<close>

datatype http_method = Http_get | Http_head | Http_post | Http_put | Http_delete | Http_list

record http_call =
  http_method :: http_method
  call_path :: string
  arg_query_data :: "dict option"
  arg_post_data :: "dict option"
  arg_streamed :: "bool option"
  arg_raw :: "bool option"
  arg_iterator :: "bool option"
  kwargs :: dict

text \<open>
  What the client returns: a parsed JSON object or array, the lazy \<^verbatim>\<open>GitlabList\<close> of
  a paginated listing (given by the items it will yield), the raw
  \<^verbatim>\<open>requests.Response\<close> (given by its content), or the response headers.
\<close>

datatype body =
    JSON_dict dict
  | JSON_list "dict list"
  | GitlabList "dict list"
  | Response bytes
  | Headers dict

text \<open>
  The client is a record of its \<^verbatim>\<open>per_page\<close> setting and of the answer of the server
  to each call: a body, or the error the client raises (\<open>GitlabHttpError\<close> for an
  unexpected HTTP status, \<open>GitlabAuthenticationError\<close> for a 401).
\<close>

record gitlab =
  per_page :: "int option"
  server :: "http_call \<Rightarrow> error + body"

text \<open>
  The result of an operation: the HTTP calls it issued, in order, and the value it
  returns or the error it raises.
\<close>

type_synonym 'a result = "http_call list \<times> (error + 'a)"

definition http_request :: "gitlab \<Rightarrow> http_call \<Rightarrow> body result" where
  "http_request gl c = ([c], server gl c)"

definition raise :: "error \<Rightarrow> 'a result" where
  "raise e = ([], Inl e)"

definition then_do :: "'a result \<Rightarrow> ('a \<Rightarrow> 'b result) \<Rightarrow> 'b result" where
  "then_do m f =
     (case m of
        (cs, Inl e) \<Rightarrow> (cs, Inl e)
      | (cs, Inr x) \<Rightarrow> (case f x of (cs', r) \<Rightarrow> (cs @ cs', r)))"

definition return :: "'a \<Rightarrow> 'a result" where
  "return x = ([], Inr x)"

definition lift :: "error + 'a \<Rightarrow> 'a result" where
  "lift r = ([], r)"

text \<open>
  A call \<^verbatim>\<open>f(..., name=value, **kwargs)\<close> whose \<^verbatim>\<open>kwargs\<close> hold one of the names that the
  call gives explicitly raises \<^verbatim>\<open>TypeError\<close> (multiple values for the keyword argument)
  before \<^verbatim>\<open>f\<close> is entered. \<open>pass_keywords names kw\<close> is that check, for the explicit names
  of a call that are not parameters of the calling method.
\<close>

definition pass_keywords :: "string list \<Rightarrow> dict \<Rightarrow> error + unit" where
  "pass_keywords names kw = (if \<exists>n \<in> set names. dict_in n kw then Inl TypeError else Inr ())"

text \<open>
  Modelled from the spec: the decorator \<^verbatim>\<open>exc.on_http_error\<close> is not among the
  sources. The spec has an unexpected HTTP status translated to the operation-specific
  error kind, carrying the HTTP status and the response body; every other outcome of the
  wrapped method stays as it is.
\<close>

fun http_error_as :: "gitlab_error_kind \<Rightarrow> error \<Rightarrow> error" where
  "http_error_as k (GitlabError GitlabHttpError msg code b) = GitlabError k msg code b"
| "http_error_as k e = e"

definition on_http_error :: "gitlab_error_kind \<Rightarrow> 'a result \<Rightarrow> 'a result" where
  "on_http_error k r =
     (case r of
        (cs, Inl e) \<Rightarrow> (cs, Inl (http_error_as k e))
      | (cs, Inr x) \<Rightarrow> (cs, Inr x))"

text \<open>A server that gives the same answer, or raises the same error, for every call.\<close>

abbreviation answers :: "gitlab \<Rightarrow> body \<Rightarrow> bool" where
  "answers gl b \<equiv> (\<forall>c. server gl c = Inr b)"

abbreviation fails_with :: "gitlab \<Rightarrow> error \<Rightarrow> bool" where
  "fails_with gl e \<equiv> (\<forall>c. server gl c = Inl e)"

section \<open>Managers and objects\<close>

datatype obj_cls =
    ProjectFile
  | ProjectJob
  | ProjectRegistryRepository
  | ProjectRegistryTag
  | RegistryRepository
  | LDAPGroup
  | GroupMilestone
  | ProjectMilestone
  | GroupIssue
  | ProjectIssue
  | GroupMergeRequest
  | ProjectMergeRequest

text \<open>
  The parent of a manager (\<^verbatim>\<open>_parent\<close>) is given by its attributes, each with the text
  that goes into a path for it. A manager holds the client, its parent and its computed
  path (\<^verbatim>\<open>self.path\<close>). A \<^verbatim>\<open>RESTObject\<close> holds its class, its manager and the attribute
  dictionary.
\<close>

type_synonym parent = "(string \<times> string) list"

record manager =
  gitlab :: gitlab
  parent :: parent
  path :: string

record rest_object =
  cls :: obj_cls
  manager :: manager
  attrs :: dict

text \<open>What a method returns.\<close>

datatype retval =
    Ret_None
  | Ret_body body
  | Ret_bytes bytes
  | Ret_object rest_object
  | Ret_objects "rest_object list"
  | Ret_RESTObjectList manager obj_cls body

text \<open>
  A returned value is a resource when it is an instance of a resource class, a list of
  such instances, or the \<^verbatim>\<open>RESTObjectList\<close> wrapper around a listing.
\<close>

fun is_resource :: "retval \<Rightarrow> bool" where
  "is_resource (Ret_object obj) = True"
| "is_resource (Ret_objects objs) = True"
| "is_resource (Ret_RESTObjectList m c b) = True"
| "is_resource Ret_None = False"
| "is_resource (Ret_body b) = False"
| "is_resource (Ret_bytes b) = False"

text \<open>
  Modelled from the spec: \<^verbatim>\<open>RESTManager\<close> (\<^verbatim>\<open>gitlab/base.py\<close>) is not among the
  sources. The computed path of a manager is the \<^verbatim>\<open>_path\<close> of its class with each field
  in braces replaced by the attribute of the parent that \<^verbatim>\<open>_from_parent_attrs\<close> names
  for it (path nesting: a tag belongs to a repository belongs to a project); an
  attribute that the parent does not have gives \<^verbatim>\<open>None\<close>.
\<close>

definition from_parent :: "parent \<Rightarrow> string \<Rightarrow> string" where
  "from_parent p a = (case map_of p a of None \<Rightarrow> ''None'' | Some s \<Rightarrow> s)"

definition ProjectJobManager :: "gitlab \<Rightarrow> parent \<Rightarrow> manager" where
  "ProjectJobManager gl p =
     \<lparr>gitlab = gl, parent = p, path = ''/projects/'' @ from_parent p ''id'' @ ''/jobs''\<rparr>"

definition ProjectFileManager :: "gitlab \<Rightarrow> parent \<Rightarrow> manager" where
  "ProjectFileManager gl p =
     \<lparr>gitlab = gl, parent = p,
      path = ''/projects/'' @ from_parent p ''id'' @ ''/repository/files''\<rparr>"

definition ProjectRegistryTagManager :: "gitlab \<Rightarrow> parent \<Rightarrow> manager" where
  "ProjectRegistryTagManager gl p =
     \<lparr>gitlab = gl, parent = p,
      path = ''/projects/'' @ from_parent p ''project_id'' @ ''/registry/repositories/''
             @ from_parent p ''id'' @ ''/tags''\<rparr>"

definition GroupMilestoneManager :: "gitlab \<Rightarrow> parent \<Rightarrow> manager" where
  "GroupMilestoneManager gl p =
     \<lparr>gitlab = gl, parent = p, path = ''/groups/'' @ from_parent p ''id'' @ ''/milestones''\<rparr>"

definition ProjectMilestoneManager :: "gitlab \<Rightarrow> parent \<Rightarrow> manager" where
  "ProjectMilestoneManager gl p =
     \<lparr>gitlab = gl, parent = p, path = ''/projects/'' @ from_parent p ''id'' @ ''/milestones''\<rparr>"

definition LDAPGroupManager_path :: string where
  "LDAPGroupManager_path = ''/ldap/groups''"

definition LDAPGroupManager :: "gitlab \<Rightarrow> manager" where
  "LDAPGroupManager gl = \<lparr>gitlab = gl, parent = [], path = LDAPGroupManager_path\<rparr>"

text \<open>
  Modelled from the spec: \<^verbatim>\<open>RESTObject\<close> (\<^verbatim>\<open>gitlab/base.py\<close>) is not among the sources.
  An object is built from the manager and the JSON object of the server, which becomes
  its attribute dictionary (the spec: attributes mirror the last server response);
  anything but a JSON object is refused. \<^verbatim>\<open>_update_attrs\<close> replaces the dictionary.
  Reading an attribute that the object does not have raises \<^verbatim>\<open>AttributeError\<close>.
  \<^verbatim>\<open>encoded_id\<close> is the attribute named by \<^verbatim>\<open>_id_attr\<close>, URL-encoded when it is a
  \<^verbatim>\<open>str\<close>, and \<^verbatim>\<open>None\<close> when the object has no such attribute.
\<close>

definition new_object :: "obj_cls \<Rightarrow> manager \<Rightarrow> body \<Rightarrow> error + rest_object" where
  "new_object c m b =
     (case b of
        JSON_dict d \<Rightarrow> Inr \<lparr>cls = c, manager = m, attrs = d\<rparr>
      | _ \<Rightarrow> Inl (GitlabError GitlabParsingError [] 0 []))"

definition update_attrs :: "rest_object \<Rightarrow> body \<Rightarrow> error + rest_object" where
  "update_attrs self new_attrs =
     (case new_attrs of
        JSON_dict d \<Rightarrow> Inr (self\<lparr>attrs := d\<rparr>)
      | _ \<Rightarrow> Inl TypeError)"

definition getattr :: "rest_object \<Rightarrow> string \<Rightarrow> error + pyval" where
  "getattr self name =
     (case map_of (attrs self) name of None \<Rightarrow> Inl (AttributeError name) | Some v \<Rightarrow> Inr v)"

definition encoded_id :: "string \<Rightarrow> rest_object \<Rightarrow> pyval" where
  "encoded_id id_attr self =
     (case map_of (attrs self) id_attr of
        None \<Rightarrow> PNone
      | Some (PStr s) \<Rightarrow> PEncodedId (quote s)
      | Some v \<Rightarrow> v)"

text \<open>
  Modelled from the spec: \<^verbatim>\<open>RequiredOptional.validate_attrs\<close> (\<^verbatim>\<open>gitlab/types.py\<close>) is
  not among the sources. The spec has a method validate that the required keys are
  present before the HTTP call; the error names the missing ones.
\<close>

record RequiredOptional =
  required :: "string list"
  optional :: "string list"

definition validate_attrs :: "RequiredOptional \<Rightarrow> dict \<Rightarrow> error + unit" where
  "validate_attrs ro data =
     (let missing = filter (\<lambda>a. \<not> dict_in a data) (required ro)
      in if missing \<noteq> [] then Inl (MissingAttributes missing) else Inr ())"

subsection \<open>The methods of the client\<close>

definition http_get ::
  "gitlab \<Rightarrow> string \<Rightarrow> dict option \<Rightarrow> bool option \<Rightarrow> bool option \<Rightarrow> dict \<Rightarrow> body result" where
  "http_get gl p qd st rw kw =
     http_request gl \<lparr>http_method = Http_get, call_path = p, arg_query_data = qd, arg_post_data = None,
                      arg_streamed = st, arg_raw = rw, arg_iterator = None, kwargs = kw\<rparr>"

definition http_head :: "gitlab \<Rightarrow> string \<Rightarrow> dict \<Rightarrow> body result" where
  "http_head gl p kw =
     http_request gl \<lparr>http_method = Http_head, call_path = p, arg_query_data = None, arg_post_data = None,
                      arg_streamed = None, arg_raw = None, arg_iterator = None, kwargs = kw\<rparr>"

definition http_post :: "gitlab \<Rightarrow> string \<Rightarrow> dict option \<Rightarrow> dict \<Rightarrow> body result" where
  "http_post gl p pd kw =
     http_request gl \<lparr>http_method = Http_post, call_path = p, arg_query_data = None, arg_post_data = pd,
                      arg_streamed = None, arg_raw = None, arg_iterator = None, kwargs = kw\<rparr>"

definition http_put :: "gitlab \<Rightarrow> string \<Rightarrow> dict option \<Rightarrow> dict \<Rightarrow> body result" where
  "http_put gl p pd kw =
     http_request gl \<lparr>http_method = Http_put, call_path = p, arg_query_data = None, arg_post_data = pd,
                      arg_streamed = None, arg_raw = None, arg_iterator = None, kwargs = kw\<rparr>"

definition http_delete :: "gitlab \<Rightarrow> string \<Rightarrow> dict option \<Rightarrow> dict \<Rightarrow> body result" where
  "http_delete gl p qd kw =
     http_request gl \<lparr>http_method = Http_delete, call_path = p, arg_query_data = qd, arg_post_data = None,
                      arg_streamed = None, arg_raw = None, arg_iterator = None, kwargs = kw\<rparr>"

definition http_list :: "gitlab \<Rightarrow> string \<Rightarrow> dict option \<Rightarrow> bool option \<Rightarrow> dict \<Rightarrow> body result" where
  "http_list gl p qd it kw =
     http_request gl \<lparr>http_method = Http_list, call_path = p, arg_query_data = qd, arg_post_data = None,
                      arg_streamed = None, arg_raw = None, arg_iterator = it, kwargs = kw\<rparr>"

section \<open>Jobs (\<^verbatim>\<open>jobs.py\<close>)\<close>

text \<open>
  A method of an object returns the object after the call together with the value the
  method returns; when the method raises, the object is as it was before the call.
  \<^verbatim>\<open>utils.response_content\<close>, which turns the raw response into the content, an
  iterator or calls of \<^verbatim>\<open>action\<close>, is not among the sources and is a parameter \<open>rc\<close> of
  the methods that use it.
\<close>

type_synonym 'act response_content =
  "body \<Rightarrow> bool \<Rightarrow> 'act \<Rightarrow> int \<Rightarrow> bool \<Rightarrow> error + retval"

definition cancel :: "rest_object \<Rightarrow> dict \<Rightarrow> (rest_object \<times> retval) result" where
  "cancel self kw =
     on_http_error GitlabJobCancelError
       (let p = path (manager self) @ ''/'' @ str_of (encoded_id ''id'' self) @ ''/cancel''
        in then_do (http_post (gitlab (manager self)) p None kw)
             (\<lambda>result. return (self, Ret_body result)))"

definition retry :: "rest_object \<Rightarrow> dict \<Rightarrow> (rest_object \<times> retval) result" where
  "retry self kw =
     on_http_error GitlabJobRetryError
       (let p = path (manager self) @ ''/'' @ str_of (encoded_id ''id'' self) @ ''/retry''
        in then_do (http_post (gitlab (manager self)) p None kw)
             (\<lambda>result. return (self, Ret_body result)))"

definition play :: "rest_object \<Rightarrow> dict \<Rightarrow> (rest_object \<times> retval) result" where
  "play self kw =
     on_http_error GitlabJobPlayError
       (let p = path (manager self) @ ''/'' @ str_of (encoded_id ''id'' self) @ ''/play''
        in then_do (http_post (gitlab (manager self)) p None kw)
             (\<lambda>result. then_do (lift (update_attrs self result))
                (\<lambda>self'. return (self', Ret_None))))"

definition erase :: "rest_object \<Rightarrow> dict \<Rightarrow> (rest_object \<times> retval) result" where
  "erase self kw =
     on_http_error GitlabJobEraseError
       (let p = path (manager self) @ ''/'' @ str_of (encoded_id ''id'' self) @ ''/erase''
        in then_do (http_post (gitlab (manager self)) p None kw)
             (\<lambda>_. return (self, Ret_None)))"

definition keep_artifacts :: "rest_object \<Rightarrow> dict \<Rightarrow> (rest_object \<times> retval) result" where
  "keep_artifacts self kw =
     on_http_error GitlabCreateError
       (let p = path (manager self) @ ''/'' @ str_of (encoded_id ''id'' self) @ ''/artifacts/keep''
        in then_do (http_post (gitlab (manager self)) p None kw)
             (\<lambda>_. return (self, Ret_None)))"

definition delete_artifacts :: "rest_object \<Rightarrow> dict \<Rightarrow> (rest_object \<times> retval) result" where
  "delete_artifacts self kw =
     on_http_error GitlabCreateError
       (let p = path (manager self) @ ''/'' @ str_of (encoded_id ''id'' self) @ ''/artifacts''
        in then_do (http_delete (gitlab (manager self)) p None kw)
             (\<lambda>_. return (self, Ret_None)))"

definition artifacts ::
  "'act response_content \<Rightarrow> rest_object \<Rightarrow> bool \<Rightarrow> 'act \<Rightarrow> int \<Rightarrow> bool \<Rightarrow> dict
   \<Rightarrow> (rest_object \<times> retval) result" where
  "artifacts rc self st action chunk_size it kw =
     on_http_error GitlabGetError
       (let p = path (manager self) @ ''/'' @ str_of (encoded_id ''id'' self) @ ''/artifacts''
        in then_do (lift (pass_keywords [''raw''] kw))
             (\<lambda>_. then_do (http_get (gitlab (manager self)) p None (Some st) (Some True) kw)
                (\<lambda>result. then_do (lift (rc result st action chunk_size it))
                   (\<lambda>r. return (self, r)))))"

definition artifact ::
  "'act response_content \<Rightarrow> rest_object \<Rightarrow> string \<Rightarrow> bool \<Rightarrow> 'act \<Rightarrow> int \<Rightarrow> bool \<Rightarrow> dict
   \<Rightarrow> (rest_object \<times> retval) result" where
  "artifact rc self artifact_path st action chunk_size it kw =
     on_http_error GitlabGetError
       (let p = path (manager self) @ ''/'' @ str_of (encoded_id ''id'' self) @ ''/artifacts/''
                @ artifact_path
        in then_do (lift (pass_keywords [''raw''] kw))
             (\<lambda>_. then_do (http_get (gitlab (manager self)) p None (Some st) (Some True) kw)
                (\<lambda>result. then_do (lift (rc result st action chunk_size it))
                   (\<lambda>r. return (self, r)))))"

definition trace ::
  "'act response_content \<Rightarrow> rest_object \<Rightarrow> bool \<Rightarrow> 'act \<Rightarrow> int \<Rightarrow> bool \<Rightarrow> dict
   \<Rightarrow> (rest_object \<times> retval) result" where
  "trace rc self st action chunk_size it kw =
     on_http_error GitlabGetError
       (let p = path (manager self) @ ''/'' @ str_of (encoded_id ''id'' self) @ ''/trace''
        in then_do (lift (pass_keywords [''raw''] kw))
             (\<lambda>_. then_do (http_get (gitlab (manager self)) p None (Some st) (Some True) kw)
                (\<lambda>result. then_do (lift (rc result st action chunk_size it))
                   (\<lambda>r. return (self, r)))))"

section \<open>Repository files (\<^verbatim>\<open>files.py\<close>)\<close>

subsection \<open>Base64 of the standard library\<close>

text \<open>
  \<^verbatim>\<open>base64.b64encode\<close> and \<^verbatim>\<open>base64.b64decode\<close> belong to Python's standard library.
  The encoder takes three bytes to four characters of the alphabet and pads the last
  group with \<^verbatim>\<open>=\<close>. The decoder is \<^verbatim>\<open>binascii.a2b_base64\<close> in its default, non-strict
  mode: it skips every character outside the alphabet, stops at the padding that
  completes a group, and raises \<^verbatim>\<open>binascii.Error\<close> when the input ends inside a group.
\<close>

definition table_b2a_base64 :: string where
  "table_b2a_base64 = ''ABCDEFGHIJKLMNOPQRSTUVWXYZabcdefghijklmnopqrstuvwxyz0123456789+/''"

definition b2a :: "byte \<Rightarrow> char" where
  "b2a w = table_b2a_base64 ! unat w"

definition table_a2b_base64 :: "char \<Rightarrow> byte option" where
  "table_a2b_base64 c = map_of (zip table_b2a_base64 (map of_nat [0..<64])) c"

fun b64encode :: "bytes \<Rightarrow> string" where
  "b64encode [] = []"
| "b64encode [a] =
     [b2a (drop_bit 2 a), b2a (push_bit 4 (a AND 3)), CHR ''='', CHR ''='']"
| "b64encode [a, b] =
     [b2a (drop_bit 2 a), b2a (push_bit 4 (a AND 3) OR drop_bit 4 b),
      b2a (push_bit 2 (b AND 15)), CHR ''='']"
| "b64encode (a # b # c # bs) =
     [b2a (drop_bit 2 a), b2a (push_bit 4 (a AND 3) OR drop_bit 4 b),
      b2a (push_bit 2 (b AND 15) OR drop_bit 6 c), b2a (c AND 63)] @ b64encode bs"

text \<open>
  The loop of \<^verbatim>\<open>a2b_base64\<close> over the input, with its variables \<^verbatim>\<open>quad_pos\<close>,
  \<^verbatim>\<open>leftchar\<close> and \<^verbatim>\<open>pads\<close> and the bytes written so far.
\<close>

fun a2b_base64_loop :: "string \<Rightarrow> nat \<Rightarrow> byte \<Rightarrow> nat \<Rightarrow> bytes \<Rightarrow> error + bytes" where
  "a2b_base64_loop [] quad_pos leftchar pads bin_data =
     (if quad_pos \<noteq> 0 then Inl BinasciiError else Inr bin_data)"
| "a2b_base64_loop (c # cs) quad_pos leftchar pads bin_data =
     (if c = CHR ''='' then
        (if quad_pos \<ge> 2 \<and> quad_pos + (pads + 1) \<ge> 4 then Inr bin_data
         else a2b_base64_loop cs quad_pos leftchar (if quad_pos \<ge> 2 then pads + 1 else pads) bin_data)
      else
        (case table_a2b_base64 c of
           None \<Rightarrow> a2b_base64_loop cs quad_pos leftchar pads bin_data
         | Some this_ch \<Rightarrow>
             (if quad_pos = 0 then a2b_base64_loop cs 1 this_ch 0 bin_data
              else if quad_pos = 1 then
                a2b_base64_loop cs 2 (this_ch AND 15) 0
                  (bin_data @ [push_bit 2 leftchar OR drop_bit 4 this_ch])
              else if quad_pos = 2 then
                a2b_base64_loop cs 3 (this_ch AND 3) 0
                  (bin_data @ [push_bit 4 leftchar OR drop_bit 2 this_ch])
              else
                a2b_base64_loop cs 0 0 0 (bin_data @ [push_bit 6 leftchar OR this_ch]))))"

definition a2b_base64 :: "string \<Rightarrow> error + bytes" where
  "a2b_base64 s = a2b_base64_loop s 0 0 0 []"

text \<open>
  \<^verbatim>\<open>b64decode\<close> takes a \<^verbatim>\<open>str\<close> of ASCII characters (\<^verbatim>\<open>ValueError\<close> otherwise); a
  value that is neither a \<^verbatim>\<open>str\<close> nor bytes-like is a \<^verbatim>\<open>TypeError\<close>.
\<close>

definition b64decode :: "pyval \<Rightarrow> error + bytes" where
  "b64decode v =
     (case v of
        PStr s \<Rightarrow> (if \<forall>c \<in> set s. (of_char c :: nat) < 128 then a2b_base64 s else Inl ValueError)
      | PEncodedId s \<Rightarrow>
          (if \<forall>c \<in> set s. (of_char c :: nat) < 128 then a2b_base64 s else Inl ValueError)
      | _ \<Rightarrow> Inl TypeError)"

subsection \<open>\<^verbatim>\<open>ProjectFile\<close>\<close>

definition ProjectFile_decode :: "rest_object \<Rightarrow> (rest_object \<times> retval) result" where
  "ProjectFile_decode self =
     then_do (lift (getattr self ''content''))
       (\<lambda>content. then_do (lift (b64decode content))
          (\<lambda>b. return (self, Ret_bytes b)))"

subsection \<open>\<^verbatim>\<open>ProjectFileManager\<close>\<close>

definition ProjectFileManager_create_attrs :: RequiredOptional where
  "ProjectFileManager_create_attrs =
     \<lparr>required = [''file_path'', ''branch'', ''content'', ''commit_message''],
      optional = [''encoding'', ''author_email'', ''author_name'', ''execute_filemode'',
                  ''start_branch'']\<rparr>"

definition ProjectFileManager_update_attrs :: RequiredOptional where
  "ProjectFileManager_update_attrs =
     \<lparr>required = [''file_path'', ''branch'', ''content'', ''commit_message''],
      optional = [''encoding'', ''author_email'', ''author_name'', ''execute_filemode'',
                  ''start_branch'', ''last_commit_id'']\<rparr>"

text \<open>
  The methods take the file path as a value, since an \<^verbatim>\<open>EncodedId\<close> is a \<^verbatim>\<open>str\<close> too.
  \<^verbatim>\<open>create\<close> without data (\<^verbatim>\<open>data=None\<close>) fails in the check of the required keys, which
  looks them up in \<^verbatim>\<open>None\<close>, before any call.
\<close>

definition get :: "manager \<Rightarrow> pyval \<Rightarrow> pyval \<Rightarrow> dict \<Rightarrow> retval result" where
  "get self file_path ref kw =
     on_http_error GitlabGetError
       (then_do (lift (EncodedId file_path))
          (\<lambda>file_path.
             let p = path self @ ''/'' @ file_path
             in then_do (http_get (gitlab self) p None None None ((''ref'', ref) # kw))
                  (\<lambda>server_data. then_do (lift (new_object ProjectFile self server_data))
                     (\<lambda>obj. return (Ret_object obj)))))"

definition head :: "manager \<Rightarrow> pyval \<Rightarrow> pyval \<Rightarrow> dict \<Rightarrow> retval result" where
  "head self file_path ref kw =
     on_http_error GitlabHeadError
       (then_do (lift (EncodedId file_path))
          (\<lambda>file_path.
             let p = path self @ ''/'' @ file_path
             in then_do (http_head (gitlab self) p ((''ref'', ref) # kw))
                  (\<lambda>result. return (Ret_body result))))"

definition create :: "manager \<Rightarrow> dict option \<Rightarrow> dict \<Rightarrow> retval result" where
  "create self data kw =
     on_http_error GitlabCreateError
       (case data of
          None \<Rightarrow> raise TypeError
        | Some data \<Rightarrow>
            then_do (lift (validate_attrs ProjectFileManager_create_attrs data))
              (\<lambda>_. let new_data = data
                    in then_do (lift (dict_pop ''file_path'' new_data))
                         (\<lambda>(popped, new_data). then_do (lift (EncodedId popped))
                            (\<lambda>file_path.
                               let p = path self @ ''/'' @ file_path
                               in then_do (lift (pass_keywords [''post_data''] kw))
                                    (\<lambda>_. then_do (http_post (gitlab self) p (Some new_data) kw)
                                       (\<lambda>server_data.
                                          then_do (lift (new_object ProjectFile self server_data))
                                            (\<lambda>obj. return (Ret_object obj))))))))"

definition update :: "manager \<Rightarrow> pyval \<Rightarrow> dict option \<Rightarrow> dict \<Rightarrow> retval result" where
  "update self file_path new_data kw =
     on_http_error GitlabUpdateError
       (let new_data = (case new_data of None \<Rightarrow> [] | Some d \<Rightarrow> d);
            data = new_data
        in then_do (lift (EncodedId file_path))
             (\<lambda>file_path.
                let data = dict_set ''file_path'' (PEncodedId file_path) data;
                    p = path self @ ''/'' @ file_path
                in then_do (lift (validate_attrs ProjectFileManager_update_attrs data))
                     (\<lambda>_. then_do (lift (pass_keywords [''post_data''] kw))
                        (\<lambda>_. then_do (http_put (gitlab self) p (Some data) kw)
                           (\<lambda>result. return (Ret_body result))))))"

definition delete :: "manager \<Rightarrow> pyval \<Rightarrow> pyval \<Rightarrow> pyval \<Rightarrow> dict \<Rightarrow> retval result" where
  "delete self file_path branch commit_message kw =
     on_http_error GitlabDeleteError
       (then_do (lift (EncodedId file_path))
          (\<lambda>file_path.
             let p = path self @ ''/'' @ file_path;
                 data = [(''branch'', branch), (''commit_message'', commit_message)]
             in then_do (lift (pass_keywords [''query_data''] kw))
                  (\<lambda>_. then_do (http_delete (gitlab self) p (Some data) kw)
                     (\<lambda>_. return Ret_None))))"

definition raw ::
  "'act response_content \<Rightarrow> manager \<Rightarrow> pyval \<Rightarrow> pyval \<Rightarrow> bool \<Rightarrow> 'act \<Rightarrow> int \<Rightarrow> bool \<Rightarrow> dict
   \<Rightarrow> retval result" where
  "raw rc self file_path ref st action chunk_size it kw =
     on_http_error GitlabGetError
       (then_do (lift (EncodedId file_path))
          (\<lambda>file_path.
             let p = path self @ ''/'' @ file_path @ ''/raw'';
                 qd = (if ref \<noteq> PNone then Some [(''ref'', ref)] else None)
             in then_do (lift (pass_keywords [''query_data'', ''raw''] kw))
                  (\<lambda>_. then_do (http_get (gitlab self) p qd (Some st) (Some True) kw)
                     (\<lambda>result. lift (rc result st action chunk_size it)))))"

definition blame :: "manager \<Rightarrow> pyval \<Rightarrow> pyval \<Rightarrow> dict \<Rightarrow> retval result" where
  "blame self file_path ref kw =
     on_http_error GitlabListError
       (then_do (lift (EncodedId file_path))
          (\<lambda>file_path.
             let p = path self @ ''/'' @ file_path @ ''/blame'';
                 qd = [(''ref'', ref)]
             in then_do (http_list (gitlab self) p (Some qd) None kw)
                  (\<lambda>result. return (Ret_body result))))"

text \<open>
  \<^verbatim>\<open>ProjectFile.delete\<close> hands the encoded identifier of the object (its
  \<^verbatim>\<open>file_path\<close>) to the manager, whose \<^verbatim>\<open>delete\<close> has a parameter \<^verbatim>\<open>file_path\<close>: an extra
  option of that name collides with it.
\<close>

definition ProjectFile_delete :: "rest_object \<Rightarrow> pyval \<Rightarrow> pyval \<Rightarrow> dict \<Rightarrow> (rest_object \<times> retval) result" where
  "ProjectFile_delete self branch commit_message kw =
     on_http_error GitlabDeleteError
       (let file_path = encoded_id ''file_path'' self
        in then_do (lift (pass_keywords [''file_path''] kw))
             (\<lambda>_. then_do (delete (manager self) file_path branch commit_message kw)
                (\<lambda>_. return (self, Ret_None))))"

section \<open>Container registry (\<^verbatim>\<open>container_registry.py\<close>)\<close>

definition delete_in_bulk :: "manager \<Rightarrow> pyval \<Rightarrow> dict \<Rightarrow> retval result" where
  "delete_in_bulk self name_regex_delete kw =
     on_http_error GitlabDeleteError
       (let valid_attrs = [''keep_n'', ''name_regex_keep'', ''older_than''];
            data = [(''name_regex_delete'', name_regex_delete)];
            data = dict_update data (filter (\<lambda>(k, v). k \<in> set valid_attrs) kw)
        in then_do (lift (pass_keywords [''query_data''] kw))
             (\<lambda>_. then_do (http_delete (gitlab self) (path self) (Some data) kw)
                (\<lambda>_. return Ret_None)))"

section \<open>LDAP groups (\<^verbatim>\<open>ldap.py\<close>)\<close>

text \<open>\<^verbatim>\<open>if self.gitlab.per_page\<close>: \<^verbatim>\<open>None\<close> and \<^verbatim>\<open>0\<close> are false.\<close>

definition truthy :: "int option \<Rightarrow> bool" where
  "truthy v = (case v of None \<Rightarrow> False | Some n \<Rightarrow> n \<noteq> 0)"

definition list_ldap :: "manager \<Rightarrow> bool \<Rightarrow> dict \<Rightarrow> retval result" where
  "list_ldap self it kw =
     on_http_error GitlabListError
       (let data = kw;
            data = (if truthy (per_page (gitlab self))
                    then dict_setdefault ''per_page'' (PInt (the (per_page (gitlab self)))) data
                    else data);
            p = (if dict_in ''provider'' data
                 then ''/ldap/'' @ str_of (the (map_of data ''provider'')) @ ''/groups''
                 else LDAPGroupManager_path)
        in then_do (http_list (gitlab self) p None (Some it) data)
             (\<lambda>obj. case obj of
                       JSON_list items \<Rightarrow>
                         return (Ret_objects
                                   (map (\<lambda>item. \<lparr>cls = LDAPGroup, manager = self, attrs = item\<rparr>) items))
                     | _ \<Rightarrow> return (Ret_RESTObjectList self LDAPGroup obj)))"

section \<open>Milestones (\<^verbatim>\<open>milestones.py\<close>)\<close>

text \<open>
  The manager classes of issues and merge requests are not among the sources: the
  constructor is a parameter of the method, applied to the client and the parent of the
  milestone's manager.
\<close>

definition GroupMilestone_issues ::
  "(gitlab \<Rightarrow> parent \<Rightarrow> manager) \<Rightarrow> rest_object \<Rightarrow> dict \<Rightarrow> (rest_object \<times> retval) result" where
  "GroupMilestone_issues GroupIssueManager self kw =
     on_http_error GitlabListError
       (let p = path (manager self) @ ''/'' @ str_of (encoded_id ''id'' self) @ ''/issues''
        in then_do (lift (pass_keywords [''iterator''] kw))
             (\<lambda>_. then_do (http_list (gitlab (manager self)) p None (Some True) kw)
                (\<lambda>data_list.
                   let m = GroupIssueManager (gitlab (manager self)) (parent (manager self))
                   in return (self, Ret_RESTObjectList m GroupIssue data_list))))"

definition GroupMilestone_merge_requests ::
  "(gitlab \<Rightarrow> parent \<Rightarrow> manager) \<Rightarrow> rest_object \<Rightarrow> dict \<Rightarrow> (rest_object \<times> retval) result" where
  "GroupMilestone_merge_requests GroupMergeRequestManager self kw =
     on_http_error GitlabListError
       (let p = path (manager self) @ ''/'' @ str_of (encoded_id ''id'' self) @ ''/merge_requests''
        in then_do (lift (pass_keywords [''iterator''] kw))
             (\<lambda>_. then_do (http_list (gitlab (manager self)) p None (Some True) kw)
                (\<lambda>data_list.
                   let m = GroupMergeRequestManager (gitlab (manager self)) (parent (manager self))
                   in return (self, Ret_RESTObjectList m GroupMergeRequest data_list))))"

definition ProjectMilestone_issues ::
  "(gitlab \<Rightarrow> parent \<Rightarrow> manager) \<Rightarrow> rest_object \<Rightarrow> dict \<Rightarrow> (rest_object \<times> retval) result" where
  "ProjectMilestone_issues ProjectIssueManager self kw =
     on_http_error GitlabListError
       (let p = path (manager self) @ ''/'' @ str_of (encoded_id ''id'' self) @ ''/issues''
        in then_do (lift (pass_keywords [''iterator''] kw))
             (\<lambda>_. then_do (http_list (gitlab (manager self)) p None (Some True) kw)
                (\<lambda>data_list.
                   let m = ProjectIssueManager (gitlab (manager self)) (parent (manager self))
                   in return (self, Ret_RESTObjectList m ProjectIssue data_list))))"

definition ProjectMilestone_merge_requests ::
  "(gitlab \<Rightarrow> parent \<Rightarrow> manager) \<Rightarrow> rest_object \<Rightarrow> dict \<Rightarrow> (rest_object \<times> retval) result" where
  "ProjectMilestone_merge_requests ProjectMergeRequestManager self kw =
     on_http_error GitlabListError
       (let p = path (manager self) @ ''/'' @ str_of (encoded_id ''id'' self) @ ''/merge_requests''
        in then_do (lift (pass_keywords [''iterator''] kw))
             (\<lambda>_. then_do (http_list (gitlab (manager self)) p None (Some True) kw)
                (\<lambda>data_list.
                   let m = ProjectMergeRequestManager (gitlab (manager self)) (parent (manager self))
                   in return (self, Ret_RESTObjectList m ProjectMergeRequest data_list))))"

section \<open>Example data\<close>

text \<open>
  A server that answers every call with the JSON object of a canceled job, one that
  answers every call with an unexpected HTTP status, and objects to call methods on.
\<close>

definition canceled_job :: dict where
  "canceled_job = [(''id'', PInt 7), (''status'', PStr ''canceled'')]"

definition ok_gitlab :: gitlab where
  "ok_gitlab = \<lparr>per_page = Some 20, server = (\<lambda>c. Inr (JSON_dict canceled_job))\<rparr>"

definition failing_gitlab :: gitlab where
  "failing_gitlab =
     \<lparr>per_page = None,
      server = (\<lambda>c. Inl (GitlabError GitlabHttpError ''404 Not Found'' 404 []))\<rparr>"

definition saved_file :: dict where
  "saved_file = [(''file_path'', PStr ''docs/README.md''), (''branch'', PStr ''main'')]"

definition file_gitlab :: gitlab where
  "file_gitlab = \<lparr>per_page = None, server = (\<lambda>c. Inr (JSON_dict saved_file))\<rparr>"

definition listing_gitlab :: gitlab where
  "listing_gitlab =
     \<lparr>per_page = Some 20, server = (\<lambda>c. Inr (JSON_list [[(''cn'', PStr ''admins'')]]))\<rparr>"

definition project_42 :: parent where
  "project_42 = [(''id'', ''42'')]"

definition running_job :: "gitlab \<Rightarrow> rest_object" where
  "running_job gl =
     \<lparr>cls = ProjectJob, manager = ProjectJobManager gl project_42,
      attrs = [(''id'', PInt 7), (''status'', PStr ''running'')]\<rparr>"

definition readme_file :: "gitlab \<Rightarrow> rest_object" where
  "readme_file gl =
     \<lparr>cls = ProjectFile, manager = ProjectFileManager gl project_42,
      attrs = [(''file_path'', PStr ''docs/README.md''), (''content'', PStr ''aGk='')]\<rparr>"

definition new_file_data :: dict where
  "new_file_data =
     [(''file_path'', PStr ''docs/README.md''), (''branch'', PStr ''main''),
      (''content'', PStr ''hi''), (''commit_message'', PStr ''add'')]"

definition lazy_gitlab :: gitlab where
  "lazy_gitlab = \<lparr>per_page = None, server = (\<lambda>c. Inr (GitlabList [[(''iid'', PInt 1)]]))\<rparr>"

definition group_milestone :: "gitlab \<Rightarrow> rest_object" where
  "group_milestone gl =
     \<lparr>cls = GroupMilestone, manager = GroupMilestoneManager gl [(''id'', ''5'')],
      attrs = [(''id'', PInt 3), (''title'', PStr ''v1'')]\<rparr>"

section \<open>Sequencing\<close>

lemma then_do_lift_Inr [simp]: "then_do (lift (Inr x)) f = f x"
  by (simp add: then_do_def lift_def split: prod.splits)

lemma then_do_lift_Inl [simp]: "then_do (lift (Inl e)) f = ([], Inl e)"
  by (simp add: then_do_def lift_def)

lemma then_do_raise [simp]: "then_do (raise e) f = ([], Inl e)"
  by (simp add: then_do_def raise_def)

lemma on_http_error_request:
  "on_http_error k (then_do (http_request gl c) (\<lambda>x. return (f x))) =
     ([c], case server gl c of Inl e \<Rightarrow> Inl (http_error_as k e) | Inr x \<Rightarrow> Inr (f x))"
  by (simp add: on_http_error_def then_do_def http_request_def return_def split: sum.splits)

lemma on_http_error_answer:
  "server gl c = Inr x \<Longrightarrow>
   on_http_error k (then_do (http_request gl c) f) =
     (case f x of
        (cs, r) \<Rightarrow> ([c] @ cs, case r of Inl e \<Rightarrow> Inl (http_error_as k e) | Inr y \<Rightarrow> Inr y))"
  by (simp add: on_http_error_def then_do_def http_request_def split: sum.splits prod.splits)

lemma on_http_error_failing:
  "server gl c = Inl e \<Longrightarrow>
   on_http_error k (then_do (http_request gl c) f) = ([c], Inl (http_error_as k e))"
  by (simp add: on_http_error_def then_do_def http_request_def)

lemma on_http_error_no_call [simp]:
  "on_http_error k ([], Inl e) = ([], Inl (http_error_as k e))"
  by (simp add: on_http_error_def)

lemma then_do_Inl: "then_do (cs, Inl e) f = (cs, Inl e)"
  by (simp add: then_do_def)

lemma on_http_error_Inl: "on_http_error k (cs, Inl e) = (cs, Inl (http_error_as k e))"
  by (simp add: on_http_error_def)

lemma fst_then_do_return: "fst (then_do r (\<lambda>x. return (g x))) = fst r"
  by (simp add: then_do_def return_def split: prod.splits sum.splits)

lemma fst_on_http_error [simp]: "fst (on_http_error k r) = fst r"
  by (simp add: on_http_error_def split: prod.splits sum.splits)

lemma fst_then_do_request:
  "fst (then_do (http_request gl c) f) =
     c # (case server gl c of Inl e \<Rightarrow> [] | Inr x \<Rightarrow> fst (f x))"
  by (simp add: then_do_def http_request_def split: prod.splits sum.splits)

lemma fst_return [simp]: "fst (return x) = []"
  by (simp add: return_def)

lemma fst_lift [simp]: "fst (lift r) = []"
  by (simp add: lift_def)

lemmas http_defs = http_get_def http_head_def http_post_def http_put_def http_delete_def
  http_list_def

section \<open>Dictionaries\<close>

lemma map_of_dict_set:
  "map_of (dict_set k v d) k' = (if k' = k then Some v else map_of d k')"
proof (cases "dict_in k d")
  case False
  then show ?thesis
    by (auto simp add: dict_set_def dict_in_def map_add_def split: option.splits)
next
  case True
  have "map_of (map (\<lambda>(a, b). if a = k then (a, v) else (a, b)) d) k' =
          (if k' = k then (case map_of d k of None \<Rightarrow> None | Some _ \<Rightarrow> Some v) else map_of d k')"
    by (induction d) auto
  with True show ?thesis
    by (auto simp add: dict_set_def dict_in_def)
qed

lemma dict_in_dict_set: "dict_in a (dict_set k v d) = (a = k \<or> dict_in a d)"
  by (simp add: dict_in_def map_of_dict_set)

lemma validate_attrs_ok:
  "(validate_attrs ro data = Inr ()) = (\<forall>a \<in> set (required ro). dict_in a data)"
  by (auto simp add: validate_attrs_def Let_def filter_empty_conv)

lemma fst_then_do_lift:
  "fst (then_do (lift x) f) = (case x of Inl e \<Rightarrow> [] | Inr v \<Rightarrow> fst (f v))"
  by (simp split: sum.splits)

lemma pop_present:
  "map_of data k = Some v \<Longrightarrow> dict_pop k data = Inr (v, filter (\<lambda>(k', v'). k' \<noteq> k) data)"
  by (simp add: dict_pop_def)

lemma validate_attrs_passes:
  "(\<forall>a \<in> set (required ro). dict_in a data) \<Longrightarrow> validate_attrs ro data = Inr ()"
  by (simp add: validate_attrs_ok)

lemma fst_request_then:
  "(\<And>x. fst (f x) = []) \<Longrightarrow> fst (then_do (http_request gl c) f) = [c]"
  by (simp add: fst_then_do_request split: sum.splits)

lemma map_of_dict_setdefault:
  "map_of (dict_setdefault k v d) k' =
     (case map_of d k' of Some x \<Rightarrow> Some x | None \<Rightarrow> if k' = k then Some v else None)"
  by (auto simp add: dict_setdefault_def dict_in_def map_add_def split: option.splits)

lemma dict_in_dict_setdefault: "dict_in a (dict_setdefault k v d) = (a = k \<or> dict_in a d)"
  by (auto simp add: dict_in_def map_of_dict_setdefault split: option.splits)

lemma pass_keywords_free:
  "(\<forall>n \<in> set names. \<not> dict_in n kw) \<Longrightarrow> pass_keywords names kw = Inr ()"
  by (simp add: pass_keywords_def)

lemma pass_keywords_clash:
  "n \<in> set names \<Longrightarrow> dict_in n kw \<Longrightarrow> pass_keywords names kw = Inl TypeError"
  by (auto simp add: pass_keywords_def)

section \<open>URL encoding leaves no reserved character\<close>

lemma hexdigit_unreserved: "unreserved (hexdigit n)"
proof -
  have "hexdigit n \<in> set ''0123456789ABCDEF''"
    unfolding hexdigit_def by (rule nth_mem) simp
  then show ?thesis
    by (auto simp add: unreserved_def)
qed

lemma quote_char_safe: "c' \<in> set (quote_char c) \<Longrightarrow> unreserved c' \<or> c' = CHR ''%''"
  by (auto simp add: quote_char_def hexdigit_unreserved split: if_splits)

lemma quote_safe: "c \<in> set (quote s) \<Longrightarrow> unreserved c \<or> c = CHR ''%''"
  by (auto simp add: quote_def dest: quote_char_safe)

lemma slash_not_in_quote: "CHR ''/'' \<notin> set (quote s)"
proof
  assume "CHR ''/'' \<in> set (quote s)"
  then have "unreserved CHR ''/'' \<or> CHR ''/'' = CHR ''%''"
    by (rule quote_safe)
  then show False
    by (simp add: unreserved_def)
qed

lemma quote_unreserved: "\<forall>c \<in> set s. unreserved c \<Longrightarrow> quote s = s"
  by (induction s) (simp_all add: quote_def quote_char_def)

lemma quote_docs_readme: "quote ''docs/README.md'' = ''docs%2FREADME.md''"
  by code_simp

section \<open>Updating and filtering a dictionary\<close>

lemma dict_in_Cons: "dict_in k ((k1, v1) # e) = (k = k1 \<or> dict_in k e)"
  by (simp add: dict_in_def)

lemma dict_update_Cons: "dict_update d ((k1, v1) # e) = dict_update (dict_set k1 v1 d) e"
  by (simp add: dict_update_def)

lemma dict_in_dict_update:
  "dict_in k (dict_update d e) = (dict_in k d \<or> dict_in k e)"
proof (induction e arbitrary: d)
  case Nil
  show ?case by (simp add: dict_update_def dict_in_def)
next
  case (Cons x e)
  obtain k1 v1 where x: "x = (k1, v1)" by (cases x)
  show ?case
    unfolding x by (auto simp add: dict_update_Cons Cons.IH dict_in_dict_set dict_in_Cons)
qed

lemma map_of_dict_update_other:
  "\<not> dict_in k e \<Longrightarrow> map_of (dict_update d e) k = map_of d k"
proof (induction e arbitrary: d)
  case Nil
  show ?case by (simp add: dict_update_def)
next
  case (Cons x e)
  obtain k1 v1 where x: "x = (k1, v1)" by (cases x)
  from Cons.prems have "k \<noteq> k1" and "\<not> dict_in k e"
    by (simp_all add: x dict_in_Cons)
  then show ?case
    unfolding x by (simp add: dict_update_Cons Cons.IH map_of_dict_set)
qed

lemma dict_in_keys: "dict_in k e = (k \<in> fst ` set e)"
  by (simp add: dict_in_def map_of_eq_None_iff)

lemma map_of_dict_update_new:
  "distinct (map fst e) \<Longrightarrow> dict_in k e \<Longrightarrow> map_of (dict_update d e) k = map_of e k"
proof (induction e arbitrary: d)
  case Nil
  then show ?case by (simp add: dict_in_def)
next
  case (Cons x e)
  obtain k1 v1 where x: "x = (k1, v1)" by (cases x)
  show ?case
  proof (cases "k = k1")
    case True
    from Cons.prems(1) have "\<not> dict_in k1 e"
      by (simp add: x dict_in_keys)
    then show ?thesis
      unfolding x True
      by (simp add: dict_update_Cons map_of_dict_update_other map_of_dict_set)
  next
    case False
    with Cons.prems have "distinct (map fst e)" and "dict_in k e"
      by (simp_all add: x dict_in_Cons)
    then show ?thesis
      unfolding x using False by (simp add: dict_update_Cons Cons.IH)
  qed
qed

lemma map_of_filter_keys:
  "map_of (filter (\<lambda>(k, v). P k) e) k = (if P k then map_of e k else None)"
  by (induction e) auto

lemma dict_in_filter_keys:
  "dict_in k (filter (\<lambda>(k, v). P k) e) = (P k \<and> dict_in k e)"
  by (simp add: dict_in_def map_of_filter_keys)

lemma distinct_filter_keys:
  "distinct (map fst e) \<Longrightarrow> distinct (map fst (filter P e))"
  by (simp add: distinct_map_filter)

section \<open>The call of \<^verbatim>\<open>LDAPGroupManager.list\<close>\<close>

lemma list_ldap_unfold:
  "list_ldap m it kw =
     on_http_error GitlabListError
       (then_do
          (http_request (gitlab m)
             \<lparr>http_method = Http_list,
              call_path = (if dict_in ''provider'' kw
                           then ''/ldap/'' @ str_of (the (map_of kw ''provider'')) @ ''/groups''
                           else ''/ldap/groups''),
              arg_query_data = None, arg_post_data = None, arg_streamed = None, arg_raw = None,
              arg_iterator = Some it,
              kwargs = (if truthy (per_page (gitlab m))
                        then dict_setdefault ''per_page'' (PInt (the (per_page (gitlab m)))) kw
                        else kw)\<rparr>)
          (\<lambda>obj. case obj of
                    JSON_list items \<Rightarrow>
                      return (Ret_objects
                                (map (\<lambda>item. \<lparr>cls = LDAPGroup, manager = m, attrs = item\<rparr>) items))
                  | _ \<Rightarrow> return (Ret_RESTObjectList m LDAPGroup obj)))"
proof -
  define data where
    "data = (if truthy (per_page (gitlab m))
             then dict_setdefault ''per_page'' (PInt (the (per_page (gitlab m)))) kw else kw)"
  have prov: "dict_in ''provider'' data = dict_in ''provider'' kw"
    by (simp add: data_def dict_in_dict_setdefault)
  have provv: "map_of data ''provider'' = map_of kw ''provider''"
    by (simp add: data_def map_of_dict_setdefault split: option.splits)
  show ?thesis
    unfolding list_ldap_def Let_def http_list_def
    by (simp only: prov [unfolded data_def] provv [unfolded data_def] LDAPGroupManager_path_def)
qed

lemma list_ldap_one_call: "length (fst (list_ldap m it kw)) = 1"
  unfolding list_ldap_unfold by (simp add: fst_request_then split: body.splits)

section \<open>Base64: decoding undoes encoding\<close>

lemma table_b2a_base64_distinct: "distinct table_b2a_base64"
  by (simp add: table_b2a_base64_def)

lemma table_b2a_base64_length: "length table_b2a_base64 = 64"
  by (simp add: table_b2a_base64_def)

lemma unat_less_64: "w < 64 \<Longrightarrow> unat (w::byte) < 64"
  by (simp add: word_less_nat_alt)

lemma table_a2b_b2a: "w < 64 \<Longrightarrow> table_a2b_base64 (b2a w) = Some w"
proof -
  assume w: "w < 64"
  have u: "unat w < 64" using w by (rule unat_less_64)
  have "map_of (zip table_b2a_base64 (map of_nat [0..<64])) (table_b2a_base64 ! unat w)
        = Some ((map of_nat [0..<64] :: byte list) ! unat w)"
    by (rule map_of_zip_nth) (simp_all add: table_b2a_base64_length table_b2a_base64_distinct u)
  also have "(map of_nat [0..<64] :: byte list) ! unat w = w"
    using u by simp
  finally show ?thesis by (simp add: table_a2b_base64_def b2a_def)
qed

lemma b2a_not_pad: "w < 64 \<Longrightarrow> b2a w \<noteq> CHR ''=''"
proof -
  assume w: "w < 64"
  have u: "unat w < 64" using w by (rule unat_less_64)
  have "b2a w \<in> set table_b2a_base64"
    unfolding b2a_def using u by (simp add: table_b2a_base64_length)
  moreover have "CHR ''='' \<notin> set table_b2a_base64"
    by (simp add: table_b2a_base64_def)
  ultimately show ?thesis by auto
qed



lemma three_mask: "(3::byte) = mask 2"
  by (simp add: mask_eq_exp_minus_1)

lemma fifteen_mask: "(15::byte) = mask 4"
  by (simp add: mask_eq_exp_minus_1)

lemma sixtythree_mask: "(63::byte) = mask 6"
  by (simp add: mask_eq_exp_minus_1)


lemma byte_eqI:
  assumes "\<And>n. n \<in> {0, 1, 2, 3, 4, 5, 6, 7} \<Longrightarrow> bit a n = bit b n"
  shows "a = (b::byte)"
proof (rule bit_word_eqI)
  fix n assume "n < LENGTH(8)"
  then have "n \<in> {0, 1, 2, 3, 4, 5, 6, 7}" by auto
  then show "bit a n = bit b n" by (rule assms)
qed

lemma byte_less_64I:
  assumes "\<not> bit w 6" and "\<not> bit w 7"
  shows "(w::byte) < 64"
proof -
  have eq: "w AND mask 6 = w"
    by (rule byte_eqI) (use assms in \<open>auto simp add: bit_simps\<close>)
  have "w AND mask 6 < 2 ^ 6"
    by (rule and_mask_less_size) (simp add: word_size)
  then show ?thesis by (simp add: eq)
qed

lemmas bit_byte_simps = bit_simps numeral_2_eq_2 [symmetric] numeral_3_eq_3 [symmetric]

lemma first_byte: "push_bit 2 (drop_bit 2 a) OR drop_bit 4 (push_bit 4 (a AND 3) OR drop_bit 4 b) = (a::byte)"
  by (rule byte_eqI) (auto simp add: bit_byte_simps three_mask)

lemma second_byte: "push_bit 4 ((push_bit 4 (a AND 3) OR drop_bit 4 b) AND 15)
           OR drop_bit 2 (push_bit 2 (b AND 15) OR drop_bit 6 c) = (b::byte)"
  by (rule byte_eqI) (auto simp add: bit_byte_simps three_mask fifteen_mask)

lemma third_byte: "push_bit 6 ((push_bit 2 (b AND 15) OR drop_bit 6 c) AND 3) OR (c AND 63) = (c::byte)"
  by (rule byte_eqI) (auto simp add: bit_byte_simps three_mask fifteen_mask sixtythree_mask)

lemma first_byte_padded: "push_bit 2 (drop_bit 2 a) OR drop_bit 4 (push_bit 4 (a AND 3)) = (a::byte)"
  by (rule byte_eqI) (auto simp add: bit_byte_simps three_mask)

lemma second_byte_padded: "push_bit 4 ((push_bit 4 (a AND 3) OR drop_bit 4 b) AND 15)
           OR drop_bit 2 (push_bit 2 (b AND 15)) = (b::byte)"
  by (rule byte_eqI) (auto simp add: bit_byte_simps three_mask fifteen_mask)

lemma sextet1_less: "drop_bit 2 (a::byte) < 64"
  by (rule byte_less_64I) (auto simp add: bit_byte_simps dest: bit_imp_le_length)

lemma sextet2_less: "push_bit 4 (a AND 3) OR drop_bit 4 b < (64::byte)"
  by (rule byte_less_64I) (auto simp add: bit_byte_simps three_mask dest: bit_imp_le_length)

lemma sextet2_padded_less: "push_bit 4 (a AND 3) < (64::byte)"
  by (rule byte_less_64I) (auto simp add: bit_byte_simps three_mask dest: bit_imp_le_length)

lemma sextet3_less: "push_bit 2 (b AND 15) OR drop_bit 6 c < (64::byte)"
  by (rule byte_less_64I) (auto simp add: bit_byte_simps fifteen_mask dest: bit_imp_le_length)

lemma sextet3_padded_less: "push_bit 2 (b AND 15) < (64::byte)"
  by (rule byte_less_64I) (auto simp add: bit_byte_simps fifteen_mask dest: bit_imp_le_length)

lemma sextet4_less: "c AND 63 < (64::byte)"
  by (rule byte_less_64I) (auto simp add: bit_byte_simps sixtythree_mask dest: bit_imp_le_length)


lemma a2b_base64_loop_sextet:
  assumes "w < 64"
  shows "a2b_base64_loop (b2a w # cs) q l p out =
           (if q = 0 then a2b_base64_loop cs 1 w 0 out
            else if q = 1 then a2b_base64_loop cs 2 (w AND 15) 0 (out @ [push_bit 2 l OR drop_bit 4 w])
            else if q = 2 then a2b_base64_loop cs 3 (w AND 3) 0 (out @ [push_bit 4 l OR drop_bit 2 w])
            else a2b_base64_loop cs 0 0 0 (out @ [push_bit 6 l OR w]))"
  using assms by (simp add: table_a2b_b2a b2a_not_pad)

lemma a2b_base64_loop_pad2:
  assumes "x1 < 64" and "x2 < 64"
  shows "a2b_base64_loop [b2a x1, b2a x2, CHR ''='', CHR ''=''] 0 l p out =
           Inr (out @ [push_bit 2 x1 OR drop_bit 4 x2])"
  using assms by (simp add: table_a2b_b2a b2a_not_pad)

lemma a2b_base64_loop_pad1:
  assumes "x1 < 64" and "x2 < 64" and "x3 < 64"
  shows "a2b_base64_loop [b2a x1, b2a x2, b2a x3, CHR ''=''] 0 l p out =
           Inr (out @ [push_bit 2 x1 OR drop_bit 4 x2, push_bit 4 (x2 AND 15) OR drop_bit 2 x3])"
  using assms by (simp add: table_a2b_b2a b2a_not_pad)

lemma a2b_base64_loop_quad:
  assumes "x1 < 64" and "x2 < 64" and "x3 < 64" and "x4 < 64"
  shows "a2b_base64_loop (b2a x1 # b2a x2 # b2a x3 # b2a x4 # cs) 0 l p out =
           a2b_base64_loop cs 0 0 0
             (out @ [push_bit 2 x1 OR drop_bit 4 x2, push_bit 4 (x2 AND 15) OR drop_bit 2 x3,
                     push_bit 6 (x3 AND 3) OR x4])"
  using assms by (simp add: table_a2b_b2a b2a_not_pad)

lemma a2b_base64_loop_b64encode:
  "a2b_base64_loop (b64encode bs) 0 l p out = Inr (out @ bs)"
proof (induction bs arbitrary: l p out rule: b64encode.induct)
  case 1
  show ?case by simp
next
  case (2 a)
  show ?case
    by (simp only: b64encode.simps a2b_base64_loop_pad2 [OF sextet1_less sextet2_padded_less] first_byte_padded)
next
  case (3 a b)
  show ?case
    by (simp only: b64encode.simps a2b_base64_loop_pad1 [OF sextet1_less sextet2_less sextet3_padded_less] first_byte second_byte_padded)
next
  case (4 a b c bs)
  show ?case
    by (simp only: b64encode.simps a2b_base64_loop_quad [OF sextet1_less sextet2_less sextet3_less sextet4_less] first_byte second_byte third_byte 4 append_assoc append.simps)
qed

lemma a2b_b64encode: "a2b_base64 (b64encode bs) = Inr bs"
  by (simp add: a2b_base64_def a2b_base64_loop_b64encode)

lemma table_b2a_base64_ascii: "\<forall>c \<in> set table_b2a_base64. (of_char c :: nat) < 128"
  by (simp add: table_b2a_base64_def)

lemma b2a_ascii: "w < 64 \<Longrightarrow> (of_char (b2a w) :: nat) < 128"
  using table_b2a_base64_ascii unat_less_64 [of w] by (simp add: b2a_def table_b2a_base64_length)

lemma b64encode_chars:
  "c \<in> set (b64encode bs) \<Longrightarrow> c = CHR ''='' \<or> (\<exists>w<64. c = b2a w)"
proof (induction bs rule: b64encode.induct)
  case 1
  then show ?case by simp
next
  case (2 a)
  then have "c = b2a (drop_bit 2 a) \<or> c = b2a (push_bit 4 (a AND 3)) \<or> c = CHR ''=''"
    by (simp only: b64encode.simps set_simps insert_iff empty_iff) blast
  then show ?case using sextet1_less sextet2_padded_less by blast
next
  case (3 a b)
  then have "c = b2a (drop_bit 2 a) \<or> c = b2a (push_bit 4 (a AND 3) OR drop_bit 4 b)
             \<or> c = b2a (push_bit 2 (b AND 15)) \<or> c = CHR ''=''"
    by (simp only: b64encode.simps set_simps insert_iff empty_iff) blast
  then show ?case using sextet1_less sextet2_less sextet3_padded_less by blast
next
  case (4 a b c' bs)
  from 4(2) have "c = b2a (drop_bit 2 a) \<or> c = b2a (push_bit 4 (a AND 3) OR drop_bit 4 b)
             \<or> c = b2a (push_bit 2 (b AND 15) OR drop_bit 6 c') \<or> c = b2a (c' AND 63)
             \<or> c \<in> set (b64encode bs)"
    by (simp only: b64encode.simps set_simps set_append insert_iff empty_iff Un_iff) blast
  then show ?case using sextet1_less sextet2_less sextet3_less sextet4_less 4(1) by blast
qed

lemma b64encode_ascii: "c \<in> set (b64encode bs) \<Longrightarrow> (of_char c :: nat) < 128"
  using b64encode_chars [of c bs] b2a_ascii by auto

lemma b64decode_b64encode: "b64decode (PStr (b64encode bs)) = Inr bs"
  by (simp add: b64decode_def a2b_b64encode b64encode_ascii)

section \<open>Errors of the HTTP layer\<close>

text \<open>
  C1. Every operation of the sources is wrapped by \<^verbatim>\<open>on_http_error\<close> with an error kind of
  its own. When the HTTP call of the operation reports an unexpected status (the client
  raises \<open>GitlabHttpError\<close>), the operation raises exactly the kind named in its
  decorator, with the message, the HTTP status and the response body of the client's
  error: \<^verbatim>\<open>get\<close> raises \<open>GitlabGetError\<close>, \<^verbatim>\<open>create\<close> \<open>GitlabCreateError\<close>, \<^verbatim>\<open>delete\<close>
  \<open>GitlabDeleteError\<close>, \<^verbatim>\<open>cancel\<close> \<open>GitlabJobCancelError\<close>, and so on for each of the
  operations of files, jobs, registry tags, LDAP groups and milestones. The operation
  reaches its HTTP call when the file path is a \<^verbatim>\<open>str\<close>, the required keys of \<^verbatim>\<open>create\<close> and
  \<^verbatim>\<open>update\<close> are present, and no extra option has the name of a keyword that the operation
  passes itself (\<^verbatim>\<open>post_data\<close>, \<^verbatim>\<open>query_data\<close>, \<^verbatim>\<open>raw\<close>, \<^verbatim>\<open>iterator\<close>, and \<^verbatim>\<open>file_path\<close> for
  \<^verbatim>\<open>ProjectFile.delete\<close>).
\<close>

theorem http_error_becomes_operation_error:
  assumes "fails_with (gitlab m) (GitlabError GitlabHttpError msg code b)"
    and "manager self = m"
  shows "snd (get m (PStr s) ref kw) =
           Inl (GitlabError GitlabGetError msg code b)
       \<and> (validate_attrs ProjectFileManager_create_attrs data = Inr ()
         \<and> map_of data ''file_path'' = Some (PStr s) \<and> \<not> dict_in ''post_data'' kw \<longrightarrow>
         snd (create m (Some data) kw) =
           Inl (GitlabError GitlabCreateError msg code b))
       \<and> (dict_in ''branch'' new_data \<and> dict_in ''content'' new_data
         \<and> dict_in ''commit_message'' new_data \<and> \<not> dict_in ''post_data'' kw \<longrightarrow>
         snd (update m (PStr s) (Some new_data) kw) =
           Inl (GitlabError GitlabUpdateError msg code b))
       \<and> (\<not> dict_in ''query_data'' kw \<longrightarrow>
         snd (delete m (PStr s) branch commit_message kw) =
           Inl (GitlabError GitlabDeleteError msg code b))
       \<and> (map_of (attrs self) ''file_path'' = Some (PStr s)
         \<and> \<not> dict_in ''file_path'' kw \<and> \<not> dict_in ''query_data'' kw \<longrightarrow>
         snd (ProjectFile_delete self branch commit_message kw) =
           Inl (GitlabError GitlabDeleteError msg code b))
       \<and> snd (head m (PStr s) ref kw) =
           Inl (GitlabError GitlabHeadError msg code b)
       \<and> (\<not> dict_in ''query_data'' kw \<and> \<not> dict_in ''raw'' kw \<longrightarrow>
         snd (raw rc m (PStr s) ref st action chunk_size it kw) =
           Inl (GitlabError GitlabGetError msg code b))
       \<and> snd (blame m (PStr s) ref kw) =
           Inl (GitlabError GitlabListError msg code b)
       \<and> snd (cancel self kw) =
           Inl (GitlabError GitlabJobCancelError msg code b)
       \<and> snd (retry self kw) =
           Inl (GitlabError GitlabJobRetryError msg code b)
       \<and> snd (play self kw) =
           Inl (GitlabError GitlabJobPlayError msg code b)
       \<and> snd (erase self kw) =
           Inl (GitlabError GitlabJobEraseError msg code b)
       \<and> snd (keep_artifacts self kw) =
           Inl (GitlabError GitlabCreateError msg code b)
       \<and> snd (delete_artifacts self kw) =
           Inl (GitlabError GitlabCreateError msg code b)
       \<and> (\<not> dict_in ''raw'' kw \<longrightarrow>
         snd (artifacts rc self st action chunk_size it kw) =
           Inl (GitlabError GitlabGetError msg code b))
       \<and> (\<not> dict_in ''raw'' kw \<longrightarrow>
         snd (artifact rc self artifact_path st action chunk_size it kw) =
           Inl (GitlabError GitlabGetError msg code b))
       \<and> (\<not> dict_in ''raw'' kw \<longrightarrow>
         snd (trace rc self st action chunk_size it kw) =
           Inl (GitlabError GitlabGetError msg code b))
       \<and> (\<not> dict_in ''query_data'' kw \<longrightarrow>
         snd (delete_in_bulk m name_regex_delete kw) =
           Inl (GitlabError GitlabDeleteError msg code b))
       \<and> snd (list_ldap m it kw) =
           Inl (GitlabError GitlabListError msg code b)
       \<and> (\<not> dict_in ''iterator'' kw \<longrightarrow>
         snd (GroupMilestone_issues mk self kw) =
           Inl (GitlabError GitlabListError msg code b))
       \<and> (\<not> dict_in ''iterator'' kw \<longrightarrow>
         snd (GroupMilestone_merge_requests mk self kw) =
           Inl (GitlabError GitlabListError msg code b))
       \<and> (\<not> dict_in ''iterator'' kw \<longrightarrow>
         snd (ProjectMilestone_issues mk self kw) =
           Inl (GitlabError GitlabListError msg code b))
       \<and> (\<not> dict_in ''iterator'' kw \<longrightarrow>
         snd (ProjectMilestone_merge_requests mk self kw) =
           Inl (GitlabError GitlabListError msg code b))"
proof -
  note fails = assms(1) [rule_format]
  note self = assms(2)
  have get: "snd (get m (PStr s) ref kw) =
           Inl (GitlabError GitlabGetError msg code b)"
    by (simp add: get_def http_defs Let_def on_http_error_failing [OF fails])
  have create: "validate_attrs ProjectFileManager_create_attrs data = Inr ()
         \<and> map_of data ''file_path'' = Some (PStr s) \<and> \<not> dict_in ''post_data'' kw \<longrightarrow>
         snd (create m (Some data) kw) =
           Inl (GitlabError GitlabCreateError msg code b)"
    by (simp add: create_def http_defs Let_def pop_present pass_keywords_def on_http_error_failing [OF fails])
  have update: "dict_in ''branch'' new_data \<and> dict_in ''content'' new_data
         \<and> dict_in ''commit_message'' new_data \<and> \<not> dict_in ''post_data'' kw \<longrightarrow>
         snd (update m (PStr s) (Some new_data) kw) =
           Inl (GitlabError GitlabUpdateError msg code b)"
    by (simp add: update_def http_defs Let_def pass_keywords_def validate_attrs_passes
          ProjectFileManager_update_attrs_def dict_in_dict_set on_http_error_failing [OF fails])
  have delete: "\<not> dict_in ''query_data'' kw \<longrightarrow>
         snd (delete m (PStr s) branch commit_message kw) =
           Inl (GitlabError GitlabDeleteError msg code b)"
    by (simp add: delete_def http_defs Let_def pass_keywords_def on_http_error_failing [OF fails])
  have file_delete: "map_of (attrs self) ''file_path'' = Some (PStr s)
         \<and> \<not> dict_in ''file_path'' kw \<and> \<not> dict_in ''query_data'' kw \<longrightarrow>
         snd (ProjectFile_delete self branch commit_message kw) =
           Inl (GitlabError GitlabDeleteError msg code b)"
    by (simp add: ProjectFile_delete_def delete_def encoded_id_def http_defs Let_def self
          pass_keywords_def on_http_error_failing [OF fails] then_do_Inl on_http_error_Inl)
  have head: "snd (head m (PStr s) ref kw) =
           Inl (GitlabError GitlabHeadError msg code b)"
    by (simp add: head_def http_defs Let_def on_http_error_failing [OF fails])
  have raw: "\<not> dict_in ''query_data'' kw \<and> \<not> dict_in ''raw'' kw \<longrightarrow>
         snd (raw rc m (PStr s) ref st action chunk_size it kw) =
           Inl (GitlabError GitlabGetError msg code b)"
    by (simp add: raw_def http_defs Let_def pass_keywords_def on_http_error_failing [OF fails])
  have blame: "snd (blame m (PStr s) ref kw) =
           Inl (GitlabError GitlabListError msg code b)"
    by (simp add: blame_def http_defs Let_def on_http_error_failing [OF fails])
  have cancel: "snd (cancel self kw) =
           Inl (GitlabError GitlabJobCancelError msg code b)"
    by (simp add: cancel_def http_defs Let_def self on_http_error_failing [OF fails])
  have retry: "snd (retry self kw) =
           Inl (GitlabError GitlabJobRetryError msg code b)"
    by (simp add: retry_def http_defs Let_def self on_http_error_failing [OF fails])
  have play: "snd (play self kw) =
           Inl (GitlabError GitlabJobPlayError msg code b)"
    by (simp add: play_def http_defs Let_def self on_http_error_failing [OF fails])
  have erase: "snd (erase self kw) =
           Inl (GitlabError GitlabJobEraseError msg code b)"
    by (simp add: erase_def http_defs Let_def self on_http_error_failing [OF fails])
  have keep_artifacts: "snd (keep_artifacts self kw) =
           Inl (GitlabError GitlabCreateError msg code b)"
    by (simp add: keep_artifacts_def http_defs Let_def self on_http_error_failing [OF fails])
  have delete_artifacts: "snd (delete_artifacts self kw) =
           Inl (GitlabError GitlabCreateError msg code b)"
    by (simp add: delete_artifacts_def http_defs Let_def self on_http_error_failing [OF fails])
  have artifacts: "\<not> dict_in ''raw'' kw \<longrightarrow>
         snd (artifacts rc self st action chunk_size it kw) =
           Inl (GitlabError GitlabGetError msg code b)"
    by (simp add: artifacts_def http_defs Let_def self pass_keywords_def on_http_error_failing [OF fails])
  have artifact: "\<not> dict_in ''raw'' kw \<longrightarrow>
         snd (artifact rc self artifact_path st action chunk_size it kw) =
           Inl (GitlabError GitlabGetError msg code b)"
    by (simp add: artifact_def http_defs Let_def self pass_keywords_def on_http_error_failing [OF fails])
  have trace: "\<not> dict_in ''raw'' kw \<longrightarrow>
         snd (trace rc self st action chunk_size it kw) =
           Inl (GitlabError GitlabGetError msg code b)"
    by (simp add: trace_def http_defs Let_def self pass_keywords_def on_http_error_failing [OF fails])
  have bulk: "\<not> dict_in ''query_data'' kw \<longrightarrow>
         snd (delete_in_bulk m name_regex_delete kw) =
           Inl (GitlabError GitlabDeleteError msg code b)"
    by (simp add: delete_in_bulk_def http_defs Let_def pass_keywords_def on_http_error_failing [OF fails])
  have ldap: "snd (list_ldap m it kw) =
           Inl (GitlabError GitlabListError msg code b)"
    unfolding list_ldap_unfold by (simp add: on_http_error_failing [OF fails])
  have GroupMilestone_issues: "\<not> dict_in ''iterator'' kw \<longrightarrow>
         snd (GroupMilestone_issues mk self kw) =
           Inl (GitlabError GitlabListError msg code b)"
    by (simp add: GroupMilestone_issues_def http_defs Let_def self pass_keywords_def on_http_error_failing [OF fails])
  have GroupMilestone_merge_requests: "\<not> dict_in ''iterator'' kw \<longrightarrow>
         snd (GroupMilestone_merge_requests mk self kw) =
           Inl (GitlabError GitlabListError msg code b)"
    by (simp add: GroupMilestone_merge_requests_def http_defs Let_def self pass_keywords_def on_http_error_failing [OF fails])
  have ProjectMilestone_issues: "\<not> dict_in ''iterator'' kw \<longrightarrow>
         snd (ProjectMilestone_issues mk self kw) =
           Inl (GitlabError GitlabListError msg code b)"
    by (simp add: ProjectMilestone_issues_def http_defs Let_def self pass_keywords_def on_http_error_failing [OF fails])
  have ProjectMilestone_merge_requests: "\<not> dict_in ''iterator'' kw \<longrightarrow>
         snd (ProjectMilestone_merge_requests mk self kw) =
           Inl (GitlabError GitlabListError msg code b)"
    by (simp add: ProjectMilestone_merge_requests_def http_defs Let_def self pass_keywords_def on_http_error_failing [OF fails])
  show ?thesis
    by (intro conjI get create update delete file_delete head raw blame cancel retry play erase keep_artifacts delete_artifacts artifacts artifact trace bulk ldap GroupMilestone_issues GroupMilestone_merge_requests ProjectMilestone_issues ProjectMilestone_merge_requests)
qed

theorem http_error_becomes_operation_error_witness:
  "fails_with (gitlab (ProjectFileManager failing_gitlab project_42))
     (GitlabError GitlabHttpError ''404 Not Found'' 404 [])
   \<and> manager (readme_file failing_gitlab) = ProjectFileManager failing_gitlab project_42
   \<and> validate_attrs ProjectFileManager_create_attrs new_file_data = Inr ()
   \<and> map_of new_file_data ''file_path'' = Some (PStr ''docs/README.md'')
   \<and> dict_in ''branch'' new_file_data
   \<and> dict_in ''content'' new_file_data
   \<and> dict_in ''commit_message'' new_file_data
   \<and> map_of (attrs (readme_file failing_gitlab)) ''file_path'' = Some (PStr ''docs/README.md'')
   \<and> \<not> dict_in ''post_data'' [(''sudo'', PStr ''root'')]
   \<and> \<not> dict_in ''query_data'' [(''sudo'', PStr ''root'')]
   \<and> \<not> dict_in ''file_path'' [(''sudo'', PStr ''root'')]
   \<and> snd (get (ProjectFileManager failing_gitlab project_42) (PStr ''docs/README.md'')
            (PStr ''main'') [(''sudo'', PStr ''root'')]) =
       Inl (GitlabError GitlabGetError ''404 Not Found'' 404 [])
   \<and> snd (create (ProjectFileManager failing_gitlab project_42) (Some new_file_data)
            [(''sudo'', PStr ''root'')]) =
       Inl (GitlabError GitlabCreateError ''404 Not Found'' 404 [])
   \<and> snd (update (ProjectFileManager failing_gitlab project_42) (PStr ''docs/README.md'')
            (Some new_file_data) [(''sudo'', PStr ''root'')]) =
       Inl (GitlabError GitlabUpdateError ''404 Not Found'' 404 [])
   \<and> snd (delete (ProjectFileManager failing_gitlab project_42) (PStr ''docs/README.md'')
            (PStr ''main'') (PStr ''remove'') [(''sudo'', PStr ''root'')]) =
       Inl (GitlabError GitlabDeleteError ''404 Not Found'' 404 [])
   \<and> snd (ProjectFile_delete (readme_file failing_gitlab) (PStr ''main'') (PStr ''remove'')
            [(''sudo'', PStr ''root'')]) =
       Inl (GitlabError GitlabDeleteError ''404 Not Found'' 404 [])"
proof -
  have h1: "fails_with (gitlab (ProjectFileManager failing_gitlab project_42))
              (GitlabError GitlabHttpError ''404 Not Found'' 404 [])"
    by (simp add: ProjectFileManager_def failing_gitlab_def)
  have h2: "manager (readme_file failing_gitlab) = ProjectFileManager failing_gitlab project_42"
    by (simp add: readme_file_def)
  have v: "validate_attrs ProjectFileManager_create_attrs new_file_data = Inr ()"
    by (simp add: validate_attrs_passes ProjectFileManager_create_attrs_def new_file_data_def
          dict_in_def)
  have fp: "map_of new_file_data ''file_path'' = Some (PStr ''docs/README.md'')"
    by (simp add: new_file_data_def)
  have k1: "dict_in ''branch'' new_file_data"
    by (simp add: new_file_data_def dict_in_def)
  have k2: "dict_in ''content'' new_file_data"
    by (simp add: new_file_data_def dict_in_def)
  have k3: "dict_in ''commit_message'' new_file_data"
    by (simp add: new_file_data_def dict_in_def)
  have sfp: "map_of (attrs (readme_file failing_gitlab)) ''file_path'' =
               Some (PStr ''docs/README.md'')"
    by (simp add: readme_file_def)
  have n1: "\<not> dict_in ''post_data'' [(''sudo'', PStr ''root'')]"
    by (simp add: dict_in_def)
  have n2: "\<not> dict_in ''query_data'' [(''sudo'', PStr ''root'')]"
    by (simp add: dict_in_def)
  have n3: "\<not> dict_in ''file_path'' [(''sudo'', PStr ''root'')]"
    by (simp add: dict_in_def)
  note t = http_error_becomes_operation_error
             [OF h1 h2, where data = new_file_data and kw = "[(''sudo'', PStr ''root'')]"
                and s = "''docs/README.md''" and ref = "PStr ''main''"
                and new_data = new_file_data
                and branch = "PStr ''main''" and commit_message = "PStr ''remove''"
                and rc = "\<lambda>result st action chunk_size it. Inr (Ret_body result)"
                and st = False and action = "()" and chunk_size = 0 and it = False
                and artifact_path = "[]" and name_regex_delete = PNone
                and mk = "\<lambda>gl p. \<lparr>gitlab = gl, parent = p, path = []\<rparr>"]
  note t1 = t [THEN conjunct2]
  note t2 = t1 [THEN conjunct2]
  note t3 = t2 [THEN conjunct2]
  note t4 = t3 [THEN conjunct2]
  have get: "snd (get (ProjectFileManager failing_gitlab project_42) (PStr ''docs/README.md'')
            (PStr ''main'') [(''sudo'', PStr ''root'')]) =
       Inl (GitlabError GitlabGetError ''404 Not Found'' 404 [])"
    by (rule t [THEN conjunct1])
  have create: "snd (create (ProjectFileManager failing_gitlab project_42) (Some new_file_data)
            [(''sudo'', PStr ''root'')]) =
       Inl (GitlabError GitlabCreateError ''404 Not Found'' 404 [])"
    by (rule t1 [THEN conjunct1, THEN mp, OF conjI [OF v conjI [OF fp n1]]])
  have update: "snd (update (ProjectFileManager failing_gitlab project_42)
            (PStr ''docs/README.md'') (Some new_file_data) [(''sudo'', PStr ''root'')]) =
       Inl (GitlabError GitlabUpdateError ''404 Not Found'' 404 [])"
    by (rule t2 [THEN conjunct1, THEN mp, OF conjI [OF k1 conjI [OF k2 conjI [OF k3 n1]]]])
  have delete: "snd (delete (ProjectFileManager failing_gitlab project_42)
            (PStr ''docs/README.md'') (PStr ''main'') (PStr ''remove'')
            [(''sudo'', PStr ''root'')]) =
       Inl (GitlabError GitlabDeleteError ''404 Not Found'' 404 [])"
    by (rule t3 [THEN conjunct1, THEN mp, OF n2])
  have file_delete: "snd (ProjectFile_delete (readme_file failing_gitlab) (PStr ''main'')
            (PStr ''remove'') [(''sudo'', PStr ''root'')]) =
       Inl (GitlabError GitlabDeleteError ''404 Not Found'' 404 [])"
    by (rule t4 [THEN conjunct1, THEN mp, OF conjI [OF sfp conjI [OF n3 n2]]])
  show ?thesis
    by (intro conjI h1 h2 v fp k1 k2 k3 sfp n1 n2 n3 get create update delete file_delete)
qed

section \<open>Canceling a job\<close>

lemma decimal_of_int_7: "decimal_of_int 7 = ''7''"
  by code_simp

text \<open>
  C2. For every \<^verbatim>\<open>ProjectJob\<close>, \<^verbatim>\<open>cancel\<close> issues exactly one HTTP request, a POST to
  \<^verbatim>\<open>/projects/{project_id}/jobs/{job_id}/cancel\<close>. The job id is URL-encoded when it is
  a \<^verbatim>\<open>str\<close> and is the decimal text of an \<^verbatim>\<open>int\<close>. The method returns the parsed JSON
  of the response as it is, so a JSON object comes back as that dictionary; an error
  of the client is raised after the one request.
\<close>

theorem cancel_posts_once:
  "(let self = \<lparr>cls = ProjectJob, manager = ProjectJobManager gl p, attrs = a\<rparr>;
        c = \<lparr>http_method = Http_post,
             call_path = ''/projects/'' @ from_parent p ''id'' @ ''/jobs/''
                         @ str_of (encoded_id ''id'' self) @ ''/cancel'',
             arg_query_data = None, arg_post_data = None, arg_streamed = None,
             arg_raw = None, arg_iterator = None, kwargs = kw\<rparr>
    in cancel self kw =
         ([c], case server gl c of
                 Inl e \<Rightarrow> Inl (http_error_as GitlabJobCancelError e)
               | Inr r \<Rightarrow> Inr (self, Ret_body r))
       \<and> (\<forall>d. server gl c = Inr (JSON_dict d) \<longrightarrow>
              snd (cancel self kw) = Inr (self, Ret_body (JSON_dict d)))
       \<and> (\<forall>s. map_of a ''id'' = Some (PStr s) \<longrightarrow> str_of (encoded_id ''id'' self) = quote s)
       \<and> (\<forall>i. map_of a ''id'' = Some (PInt i) \<longrightarrow>
              str_of (encoded_id ''id'' self) = decimal_of_int i))"
  by (simp add: Let_def cancel_def http_post_def on_http_error_request ProjectJobManager_def
        encoded_id_def)

theorem cancel_posts_once_witness:
  "map_of (attrs (running_job ok_gitlab)) ''id'' = Some (PInt 7)
   \<and> cancel (running_job ok_gitlab) [(''sudo'', PStr ''root'')] =
       ([\<lparr>http_method = Http_post, call_path = ''/projects/42/jobs/7/cancel'',
          arg_query_data = None, arg_post_data = None, arg_streamed = None,
          arg_raw = None, arg_iterator = None, kwargs = [(''sudo'', PStr ''root'')]\<rparr>],
        Inr (running_job ok_gitlab, Ret_body (JSON_dict canceled_job)))"
  using cancel_posts_once [of ok_gitlab project_42 "[(''id'', PInt 7), (''status'', PStr ''running'')]"
          "[(''sudo'', PStr ''root'')]"]
  by (simp add: Let_def running_job_def ok_gitlab_def project_42_def from_parent_def
        encoded_id_def decimal_of_int_7)

section \<open>Deleting registry tags in bulk\<close>

text \<open>
  C3 says that \<^verbatim>\<open>delete_in_bulk\<close> issues a single HTTP DELETE for every
  \<^verbatim>\<open>name_regex_delete\<close> and every choice of extra keyword options. The method calls
  \<^verbatim>\<open>http_delete(self.path, query_data=data, **kwargs)\<close>, so an extra option that is itself
  named \<^verbatim>\<open>query_data\<close> is a second value for that keyword: the call raises \<^verbatim>\<open>TypeError\<close>
  and no request is sent.
\<close>

theorem delete_in_bulk_query_data_option_counterexample:
  "delete_in_bulk (ProjectRegistryTagManager ok_gitlab [(''project_id'', ''42''), (''id'', ''3'')])
     (PStr ''.*'') [(''query_data'', POther ''{}'')] =
     ([], Inl TypeError)"
  by (simp add: delete_in_bulk_def Let_def pass_keywords_def dict_in_def)

text \<open>
  C3 as amended. For every \<^verbatim>\<open>name_regex_delete\<close> and extra options none of which is named
  \<^verbatim>\<open>query_data\<close>, \<^verbatim>\<open>delete_in_bulk\<close> issues a single \<^verbatim>\<open>http_delete\<close> to
  \<^verbatim>\<open>/projects/{project_id}/registry/repositories/{repository_id}/tags\<close>; the query data holds
  \<^verbatim>\<open>name_regex_delete\<close> and, of the extra options, only \<^verbatim>\<open>keep_n\<close>, \<^verbatim>\<open>name_regex_keep\<close> and
  \<^verbatim>\<open>older_than\<close>, each with the value the caller gave, and the extra options are also
  handed to the client as keyword arguments. With an extra option named \<^verbatim>\<open>query_data\<close>
  the method raises \<^verbatim>\<open>TypeError\<close> and sends no request.
\<close>

theorem delete_in_bulk_request:
  "(let qd = dict_update [(''name_regex_delete'', name_regex_delete)]
               (filter (\<lambda>(k, v). k \<in> set [''keep_n'', ''name_regex_keep'', ''older_than'']) kw);
        c = \<lparr>http_method = Http_delete,
             call_path = ''/projects/'' @ from_parent p ''project_id''
                         @ ''/registry/repositories/'' @ from_parent p ''id'' @ ''/tags'',
             arg_query_data = Some qd, arg_post_data = None, arg_streamed = None,
             arg_raw = None, arg_iterator = None, kwargs = kw\<rparr>
    in (\<not> dict_in ''query_data'' kw \<longrightarrow>
          delete_in_bulk (ProjectRegistryTagManager gl p) name_regex_delete kw =
            ([c], case server gl c of
                    Inl e \<Rightarrow> Inl (http_error_as GitlabDeleteError e)
                  | Inr r \<Rightarrow> Inr Ret_None))
       \<and> (dict_in ''query_data'' kw \<longrightarrow>
            delete_in_bulk (ProjectRegistryTagManager gl p) name_regex_delete kw =
              ([], Inl TypeError))
       \<and> map_of qd ''name_regex_delete'' = Some name_regex_delete
       \<and> (\<forall>k. dict_in k qd =
                (k = ''name_regex_delete''
                 \<or> (k \<in> {''keep_n'', ''name_regex_keep'', ''older_than''} \<and> dict_in k kw)))
       \<and> (distinct (map fst kw) \<longrightarrow>
             (\<forall>k \<in> {''keep_n'', ''name_regex_keep'', ''older_than''}. map_of qd k = map_of kw k)))"
proof -
  define e where
    "e = filter (\<lambda>(k, v). k \<in> set [''keep_n'', ''name_regex_keep'', ''older_than'']) kw"
  define qd where "qd = dict_update [(''name_regex_delete'', name_regex_delete)] e"
  define c where
    "c = \<lparr>http_method = Http_delete,
          call_path = ''/projects/'' @ from_parent p ''project_id''
                      @ ''/registry/repositories/'' @ from_parent p ''id'' @ ''/tags'',
          arg_query_data = Some qd, arg_post_data = None, arg_streamed = None,
          arg_raw = None, arg_iterator = None, kwargs = kw\<rparr>"
  have call: "\<not> dict_in ''query_data'' kw \<longrightarrow>
          delete_in_bulk (ProjectRegistryTagManager gl p) name_regex_delete kw =
            ([c], case server gl c of
                    Inl e \<Rightarrow> Inl (http_error_as GitlabDeleteError e)
                  | Inr r \<Rightarrow> Inr Ret_None)"
    by (simp add: delete_in_bulk_def http_defs Let_def on_http_error_request pass_keywords_def
          ProjectRegistryTagManager_def c_def qd_def e_def)
  have clash: "dict_in ''query_data'' kw \<longrightarrow>
            delete_in_bulk (ProjectRegistryTagManager gl p) name_regex_delete kw =
              ([], Inl TypeError)"
    by (simp add: delete_in_bulk_def Let_def pass_keywords_def)
  have nrd: "map_of qd ''name_regex_delete'' = Some name_regex_delete"
    unfolding qd_def e_def
    by (simp add: map_of_dict_update_other dict_in_filter_keys)
  have keys: "\<forall>k. dict_in k qd =
                (k = ''name_regex_delete''
                 \<or> (k \<in> {''keep_n'', ''name_regex_keep'', ''older_than''} \<and> dict_in k kw))"
    unfolding qd_def e_def
    by (simp add: dict_in_dict_update dict_in_filter_keys dict_in_Cons)
       (simp add: dict_in_def)
  have vals: "distinct (map fst kw) \<longrightarrow>
             (\<forall>k \<in> {''keep_n'', ''name_regex_keep'', ''older_than''}. map_of qd k = map_of kw k)"
  proof (intro impI ballI)
    fix k
    assume d: "distinct (map fst kw)"
      and k: "k \<in> {''keep_n'', ''name_regex_keep'', ''older_than''}"
    then have v: "k \<in> set [''keep_n'', ''name_regex_keep'', ''older_than'']" by simp
    have de: "distinct (map fst e)"
      unfolding e_def using d by (rule distinct_filter_keys)
    show "map_of qd k = map_of kw k"
    proof (cases "dict_in k kw")
      case True
      with v have "dict_in k e"
        by (simp add: e_def dict_in_filter_keys)
      then have "map_of qd k = map_of e k"
        unfolding qd_def using de by (simp add: map_of_dict_update_new)
      with v show ?thesis
        by (simp add: e_def map_of_filter_keys)
    next
      case False
      then have "\<not> dict_in k e"
        by (simp add: e_def dict_in_filter_keys)
      then have "map_of qd k = map_of [(''name_regex_delete'', name_regex_delete)] k"
        unfolding qd_def by (rule map_of_dict_update_other)
      also have "\<dots> = None"
        using v by auto
      finally show ?thesis
        using False by (simp add: dict_in_def)
    qed
  qed
  have "(\<not> dict_in ''query_data'' kw \<longrightarrow>
          delete_in_bulk (ProjectRegistryTagManager gl p) name_regex_delete kw =
            ([c], case server gl c of
                    Inl e \<Rightarrow> Inl (http_error_as GitlabDeleteError e)
                  | Inr r \<Rightarrow> Inr Ret_None))
       \<and> (dict_in ''query_data'' kw \<longrightarrow>
            delete_in_bulk (ProjectRegistryTagManager gl p) name_regex_delete kw =
              ([], Inl TypeError))
       \<and> map_of qd ''name_regex_delete'' = Some name_regex_delete
       \<and> (\<forall>k. dict_in k qd =
                (k = ''name_regex_delete''
                 \<or> (k \<in> {''keep_n'', ''name_regex_keep'', ''older_than''} \<and> dict_in k kw)))
       \<and> (distinct (map fst kw) \<longrightarrow>
             (\<forall>k \<in> {''keep_n'', ''name_regex_keep'', ''older_than''}. map_of qd k = map_of kw k))"
    by (intro conjI call clash nrd keys vals)
  then show ?thesis
    unfolding Let_def c_def qd_def e_def .
qed

lemma keep_five: "dict_update [(''name_regex_delete'', PStr ''.*'')]
      (filter (\<lambda>(k, v). k \<in> set [''keep_n'', ''name_regex_keep'', ''older_than''])
         [(''keep_n'', PInt 5), (''sudo'', PStr ''root'')]) =
    [(''name_regex_delete'', PStr ''.*''), (''keep_n'', PInt 5)]"
  by (simp add: dict_update_def dict_set_def dict_in_def)

theorem delete_in_bulk_request_witness:
  "\<not> dict_in ''query_data'' [(''keep_n'', PInt 5), (''sudo'', PStr ''root'')]
   \<and> distinct (map fst [(''keep_n'', PInt 5), (''sudo'', PStr ''root'')])
   \<and> delete_in_bulk
       (ProjectRegistryTagManager ok_gitlab [(''project_id'', ''42''), (''id'', ''3'')])
       (PStr ''.*'') [(''keep_n'', PInt 5), (''sudo'', PStr ''root'')] =
       ([\<lparr>http_method = Http_delete,
          call_path = ''/projects/42/registry/repositories/3/tags'',
          arg_query_data = Some [(''name_regex_delete'', PStr ''.*''), (''keep_n'', PInt 5)],
          arg_post_data = None, arg_streamed = None, arg_raw = None, arg_iterator = None,
          kwargs = [(''keep_n'', PInt 5), (''sudo'', PStr ''root'')]\<rparr>],
        Inr Ret_None)
   \<and> dict_in ''query_data'' [(''query_data'', POther ''{}'')]
   \<and> delete_in_bulk
       (ProjectRegistryTagManager ok_gitlab [(''project_id'', ''42''), (''id'', ''3'')])
       (PStr ''.*'') [(''query_data'', POther ''{}'')] =
       ([], Inl TypeError)"
proof -
  have free: "\<not> dict_in ''query_data'' [(''keep_n'', PInt 5), (''sudo'', PStr ''root'')]"
    by (simp add: dict_in_def)
  have dist: "distinct (map fst [(''keep_n'', PInt 5), (''sudo'', PStr ''root'')])"
    by simp
  have taken: "dict_in ''query_data'' [(''query_data'', POther ''{}'')]"
    by (simp add: dict_in_def)
  note t1 = delete_in_bulk_request
          [where gl = ok_gitlab and p = "[(''project_id'', ''42''), (''id'', ''3'')]"
             and name_regex_delete = "PStr ''.*''"
             and kw = "[(''keep_n'', PInt 5), (''sudo'', PStr ''root'')]",
           unfolded Let_def keep_five, THEN conjunct1, THEN mp, OF free]
  note t2 = delete_in_bulk_request
          [where gl = ok_gitlab and p = "[(''project_id'', ''42''), (''id'', ''3'')]"
             and name_regex_delete = "PStr ''.*''"
             and kw = "[(''query_data'', POther ''{}'')]",
           unfolded Let_def, THEN conjunct2, THEN conjunct1, THEN mp, OF taken]
  have one: "delete_in_bulk
       (ProjectRegistryTagManager ok_gitlab [(''project_id'', ''42''), (''id'', ''3'')])
       (PStr ''.*'') [(''keep_n'', PInt 5), (''sudo'', PStr ''root'')] =
       ([\<lparr>http_method = Http_delete,
          call_path = ''/projects/42/registry/repositories/3/tags'',
          arg_query_data = Some [(''name_regex_delete'', PStr ''.*''), (''keep_n'', PInt 5)],
          arg_post_data = None, arg_streamed = None, arg_raw = None, arg_iterator = None,
          kwargs = [(''keep_n'', PInt 5), (''sudo'', PStr ''root'')]\<rparr>],
        Inr Ret_None)"
    using t1 by (simp add: from_parent_def ok_gitlab_def)
  show ?thesis
    by (intro conjI free dist one taken t2)
qed

section \<open>The raw content of a file\<close>

text \<open>
  C4 says that \<^verbatim>\<open>ProjectFileManager.raw\<close> issues a single HTTP GET for every file path and
  optional \<^verbatim>\<open>ref\<close>. The method calls
  \<^verbatim>\<open>http_get(path, query_data=query_data, streamed=streamed, raw=True, **kwargs)\<close>, so an
  extra option named \<^verbatim>\<open>raw\<close> (or \<^verbatim>\<open>query_data\<close>) is a second value for that keyword: the
  call raises \<^verbatim>\<open>TypeError\<close> and no request is sent.
\<close>

theorem raw_option_named_raw_counterexample:
  "raw (\<lambda>result st action chunk_size it. Inr (Ret_body result))
     (ProjectFileManager ok_gitlab project_42) (PStr ''docs/README.md'') (PStr ''main'')
     False () 1024 False [(''raw'', PBool True)] =
     ([], Inl TypeError)"
  by (simp add: raw_def Let_def pass_keywords_def dict_in_def)

text \<open>
  C4 as amended. For every file path, optional \<^verbatim>\<open>ref\<close> and extra options none of which is
  named \<^verbatim>\<open>query_data\<close> or \<^verbatim>\<open>raw\<close>, \<^verbatim>\<open>ProjectFileManager.raw\<close> issues a single \<^verbatim>\<open>http_get\<close>
  to \<^verbatim>\<open>/projects/{project_id}/repository/files/{file_path}/raw\<close> with the file path
  URL-encoded (so without \<^verbatim>\<open>/\<close>), and the query data is \<^verbatim>\<open>{"ref": ref}\<close> when \<^verbatim>\<open>ref\<close> is
  not \<^verbatim>\<open>None\<close> and absent when it is. With an extra option named \<^verbatim>\<open>query_data\<close> or
  \<^verbatim>\<open>raw\<close> the method raises \<^verbatim>\<open>TypeError\<close> and sends no request.
\<close>

theorem raw_request:
  "(\<not> dict_in ''query_data'' kw \<and> \<not> dict_in ''raw'' kw \<longrightarrow>
      fst (raw rc (ProjectFileManager gl p) (PStr s) ref st action chunk_size it kw) =
        [\<lparr>http_method = Http_get,
          call_path = ''/projects/'' @ from_parent p ''id'' @ ''/repository/files/'' @ quote s
                      @ ''/raw'',
          arg_query_data = (if ref = PNone then None else Some [(''ref'', ref)]),
          arg_post_data = None, arg_streamed = Some st, arg_raw = Some True,
          arg_iterator = None, kwargs = kw\<rparr>])
   \<and> (dict_in ''query_data'' kw \<or> dict_in ''raw'' kw \<longrightarrow>
        raw rc (ProjectFileManager gl p) (PStr s) ref st action chunk_size it kw =
          ([], Inl TypeError))
   \<and> CHR ''/'' \<notin> set (quote s)"
proof -
  have a: "\<not> dict_in ''query_data'' kw \<and> \<not> dict_in ''raw'' kw \<longrightarrow>
      fst (raw rc (ProjectFileManager gl p) (PStr s) ref st action chunk_size it kw) =
        [\<lparr>http_method = Http_get,
          call_path = ''/projects/'' @ from_parent p ''id'' @ ''/repository/files/'' @ quote s
                      @ ''/raw'',
          arg_query_data = (if ref = PNone then None else Some [(''ref'', ref)]),
          arg_post_data = None, arg_streamed = Some st, arg_raw = Some True,
          arg_iterator = None, kwargs = kw\<rparr>]"
    by (simp add: raw_def http_defs Let_def fst_request_then ProjectFileManager_def
          pass_keywords_def)
  have b: "dict_in ''query_data'' kw \<or> dict_in ''raw'' kw \<longrightarrow>
        raw rc (ProjectFileManager gl p) (PStr s) ref st action chunk_size it kw =
          ([], Inl TypeError)"
    by (auto simp add: raw_def Let_def pass_keywords_def)
  show ?thesis
    by (intro conjI a b slash_not_in_quote)
qed

theorem raw_request_witness:
  "\<not> dict_in ''query_data'' [(''sudo'', PStr ''root'')]
   \<and> \<not> dict_in ''raw'' [(''sudo'', PStr ''root'')]
   \<and> fst (raw (\<lambda>result st action chunk_size it. Inr (Ret_body result))
            (ProjectFileManager ok_gitlab project_42) (PStr ''docs/README.md'') (PStr ''main'')
            False () 1024 False [(''sudo'', PStr ''root'')]) =
       [\<lparr>http_method = Http_get,
         call_path = ''/projects/42/repository/files/docs%2FREADME.md/raw'',
         arg_query_data = Some [(''ref'', PStr ''main'')],
         arg_post_data = None, arg_streamed = Some False, arg_raw = Some True,
         arg_iterator = None, kwargs = [(''sudo'', PStr ''root'')]\<rparr>]
   \<and> fst (raw (\<lambda>result st action chunk_size it. Inr (Ret_body result))
            (ProjectFileManager ok_gitlab project_42) (PStr ''docs/README.md'') PNone
            False () 1024 False [(''sudo'', PStr ''root'')]) =
       [\<lparr>http_method = Http_get,
         call_path = ''/projects/42/repository/files/docs%2FREADME.md/raw'',
         arg_query_data = None,
         arg_post_data = None, arg_streamed = Some False, arg_raw = Some True,
         arg_iterator = None, kwargs = [(''sudo'', PStr ''root'')]\<rparr>]"
proof -
  have free: "\<not> dict_in ''query_data'' [(''sudo'', PStr ''root'')]
              \<and> \<not> dict_in ''raw'' [(''sudo'', PStr ''root'')]"
    by (simp add: dict_in_def)
  note t1 = raw_request
      [where rc = "\<lambda>result st action chunk_size it. Inr (Ret_body result)" and gl = ok_gitlab
         and p = project_42 and s = "''docs/README.md''" and ref = "PStr ''main''"
         and st = False and action = "()" and chunk_size = 1024 and it = False
         and kw = "[(''sudo'', PStr ''root'')]", THEN conjunct1, THEN mp, OF free]
  note t2 = raw_request
      [where rc = "\<lambda>result st action chunk_size it. Inr (Ret_body result)" and gl = ok_gitlab
         and p = project_42 and s = "''docs/README.md''" and ref = PNone
         and st = False and action = "()" and chunk_size = 1024 and it = False
         and kw = "[(''sudo'', PStr ''root'')]", THEN conjunct1, THEN mp, OF free]
  have with_ref: "fst (raw (\<lambda>result st action chunk_size it. Inr (Ret_body result))
            (ProjectFileManager ok_gitlab project_42) (PStr ''docs/README.md'') (PStr ''main'')
            False () 1024 False [(''sudo'', PStr ''root'')]) =
       [\<lparr>http_method = Http_get,
         call_path = ''/projects/42/repository/files/docs%2FREADME.md/raw'',
         arg_query_data = Some [(''ref'', PStr ''main'')],
         arg_post_data = None, arg_streamed = Some False, arg_raw = Some True,
         arg_iterator = None, kwargs = [(''sudo'', PStr ''root'')]\<rparr>]"
    using t1 unfolding quote_docs_readme by (simp add: from_parent_def project_42_def)
  have without_ref: "fst (raw (\<lambda>result st action chunk_size it. Inr (Ret_body result))
            (ProjectFileManager ok_gitlab project_42) (PStr ''docs/README.md'') PNone
            False () 1024 False [(''sudo'', PStr ''root'')]) =
       [\<lparr>http_method = Http_get,
         call_path = ''/projects/42/repository/files/docs%2FREADME.md/raw'',
         arg_query_data = None,
         arg_post_data = None, arg_streamed = Some False, arg_raw = Some True,
         arg_iterator = None, kwargs = [(''sudo'', PStr ''root'')]\<rparr>]"
    using t2 unfolding quote_docs_readme by (simp add: from_parent_def project_42_def)
  show ?thesis
    by (intro conjI free [THEN conjunct1] free [THEN conjunct2] with_ref without_ref)
qed

section \<open>Creating a file\<close>

text \<open>
  C5 says that \<^verbatim>\<open>ProjectFileManager.create\<close> validates the required keys and, when the
  validation succeeds, posts the data without \<^verbatim>\<open>file_path\<close>. The method calls
  \<^verbatim>\<open>http_post(path, post_data=new_data, **kwargs)\<close>, so with an extra option named
  \<^verbatim>\<open>post_data\<close> the validation succeeds and the call then raises \<^verbatim>\<open>TypeError\<close>: nothing is
  posted.
\<close>

theorem create_option_named_post_data_counterexample:
  "validate_attrs ProjectFileManager_create_attrs new_file_data = Inr ()
   \<and> create (ProjectFileManager file_gitlab project_42) (Some new_file_data)
       [(''post_data'', POther ''{}'')] =
       ([], Inl TypeError)"
  by (simp add: create_def validate_attrs_passes ProjectFileManager_create_attrs_def
        new_file_data_def dict_in_def dict_pop_def Let_def pass_keywords_def)

text \<open>
  C5 as amended. \<^verbatim>\<open>ProjectFileManager.create\<close> first checks that \<^verbatim>\<open>file_path\<close>, \<^verbatim>\<open>branch\<close>,
  \<^verbatim>\<open>content\<close> and \<^verbatim>\<open>commit_message\<close> are keys of the data; when one is missing it raises
  without issuing an HTTP request. When all are present, the file path is a \<^verbatim>\<open>str\<close> and no
  extra option is named \<^verbatim>\<open>post_data\<close>, it takes \<^verbatim>\<open>file_path\<close> out of the data, puts it
  URL-encoded into the path and posts the remaining data, in which every other key keeps
  its value. With an extra option named \<^verbatim>\<open>post_data\<close> it raises \<^verbatim>\<open>TypeError\<close> and sends no
  request.
\<close>

theorem create_validates_then_posts:
  "(let m = ProjectFileManager gl p;
        missing = filter (\<lambda>a. \<not> dict_in a data)
                    [''file_path'', ''branch'', ''content'', ''commit_message''];
        new_data = filter (\<lambda>(k, v). k \<noteq> ''file_path'') data
    in (missing \<noteq> [] \<longrightarrow> create m (Some data) kw = ([], Inl (MissingAttributes missing)))
       \<and> (\<forall>s. missing = [] \<and> map_of data ''file_path'' = Some (PStr s)
                \<and> \<not> dict_in ''post_data'' kw \<longrightarrow>
              fst (create m (Some data) kw) =
                [\<lparr>http_method = Http_post,
                  call_path = ''/projects/'' @ from_parent p ''id'' @ ''/repository/files/''
                              @ quote s,
                  arg_query_data = None, arg_post_data = Some new_data, arg_streamed = None,
                  arg_raw = None, arg_iterator = None, kwargs = kw\<rparr>])
       \<and> (\<forall>s. missing = [] \<and> map_of data ''file_path'' = Some (PStr s)
                \<and> dict_in ''post_data'' kw \<longrightarrow>
              create m (Some data) kw = ([], Inl TypeError))
       \<and> \<not> dict_in ''file_path'' new_data
       \<and> (\<forall>k. k \<noteq> ''file_path'' \<longrightarrow> map_of new_data k = map_of data k)
       \<and> create m None kw = ([], Inl TypeError))"
proof -
  define m where "m = ProjectFileManager gl p"
  define missing where
    "missing = filter (\<lambda>a. \<not> dict_in a data)
                 [''file_path'', ''branch'', ''content'', ''commit_message'']"
  define new_data where "new_data = filter (\<lambda>(k, v). k \<noteq> ''file_path'') data"
  have val: "validate_attrs ProjectFileManager_create_attrs data =
               (if missing \<noteq> [] then Inl (MissingAttributes missing) else Inr ())"
    by (simp add: validate_attrs_def ProjectFileManager_create_attrs_def Let_def missing_def)
  have a: "missing \<noteq> [] \<longrightarrow> create m (Some data) kw = ([], Inl (MissingAttributes missing))"
    by (simp add: create_def val)
  have b: "\<forall>s. missing = [] \<and> map_of data ''file_path'' = Some (PStr s)
                \<and> \<not> dict_in ''post_data'' kw \<longrightarrow>
              fst (create m (Some data) kw) =
                [\<lparr>http_method = Http_post,
                  call_path = ''/projects/'' @ from_parent p ''id'' @ ''/repository/files/''
                              @ quote s,
                  arg_query_data = None, arg_post_data = Some new_data, arg_streamed = None,
                  arg_raw = None, arg_iterator = None, kwargs = kw\<rparr>]"
    by (simp add: create_def val pop_present http_defs Let_def fst_request_then
          fst_then_do_lift m_def ProjectFileManager_def new_data_def pass_keywords_def
          split: sum.splits)
  have c: "\<forall>s. missing = [] \<and> map_of data ''file_path'' = Some (PStr s)
                \<and> dict_in ''post_data'' kw \<longrightarrow>
              create m (Some data) kw = ([], Inl TypeError)"
    by (simp add: create_def val pop_present Let_def pass_keywords_def)
  have d: "\<not> dict_in ''file_path'' new_data"
    using dict_in_filter_keys [of "''file_path''" "\<lambda>k. k \<noteq> ''file_path''" data]
    by (simp add: new_data_def)
  have e: "\<forall>k. k \<noteq> ''file_path'' \<longrightarrow> map_of new_data k = map_of data k"
    using map_of_filter_keys [of "\<lambda>k. k \<noteq> ''file_path''" data]
    by (simp add: new_data_def)
  have f: "create m None kw = ([], Inl TypeError)"
    by (simp add: create_def raise_def)
  have "(missing \<noteq> [] \<longrightarrow> create m (Some data) kw = ([], Inl (MissingAttributes missing)))
       \<and> (\<forall>s. missing = [] \<and> map_of data ''file_path'' = Some (PStr s)
                \<and> \<not> dict_in ''post_data'' kw \<longrightarrow>
              fst (create m (Some data) kw) =
                [\<lparr>http_method = Http_post,
                  call_path = ''/projects/'' @ from_parent p ''id'' @ ''/repository/files/''
                              @ quote s,
                  arg_query_data = None, arg_post_data = Some new_data, arg_streamed = None,
                  arg_raw = None, arg_iterator = None, kwargs = kw\<rparr>])
       \<and> (\<forall>s. missing = [] \<and> map_of data ''file_path'' = Some (PStr s)
                \<and> dict_in ''post_data'' kw \<longrightarrow>
              create m (Some data) kw = ([], Inl TypeError))
       \<and> \<not> dict_in ''file_path'' new_data
       \<and> (\<forall>k. k \<noteq> ''file_path'' \<longrightarrow> map_of new_data k = map_of data k)
       \<and> create m None kw = ([], Inl TypeError)"
    by (intro conjI a b c d e f)
  then show ?thesis
    unfolding Let_def m_def missing_def new_data_def .
qed

theorem create_validates_then_posts_witness:
  "filter (\<lambda>a. \<not> dict_in a [(''file_path'', PStr ''docs/README.md''), (''content'', PStr ''hi'')])
     [''file_path'', ''branch'', ''content'', ''commit_message''] \<noteq> []
   \<and> create (ProjectFileManager file_gitlab project_42)
       (Some [(''file_path'', PStr ''docs/README.md''), (''content'', PStr ''hi'')]) [] =
       ([], Inl (MissingAttributes [''branch'', ''commit_message'']))
   \<and> filter (\<lambda>a. \<not> dict_in a new_file_data)
       [''file_path'', ''branch'', ''content'', ''commit_message''] = []
   \<and> map_of new_file_data ''file_path'' = Some (PStr ''docs/README.md'')
   \<and> \<not> dict_in ''post_data'' [(''sudo'', PStr ''root'')]
   \<and> fst (create (ProjectFileManager file_gitlab project_42) (Some new_file_data)
            [(''sudo'', PStr ''root'')]) =
       [\<lparr>http_method = Http_post,
         call_path = ''/projects/42/repository/files/docs%2FREADME.md'',
         arg_query_data = None,
         arg_post_data = Some [(''branch'', PStr ''main''), (''content'', PStr ''hi''),
                               (''commit_message'', PStr ''add'')],
         arg_streamed = None, arg_raw = None, arg_iterator = None,
         kwargs = [(''sudo'', PStr ''root'')]\<rparr>]"
proof -
  let ?short = "[(''file_path'', PStr ''docs/README.md''), (''content'', PStr ''hi'')]"
  have h1: "filter (\<lambda>a. \<not> dict_in a ?short)
              [''file_path'', ''branch'', ''content'', ''commit_message'']
            = [''branch'', ''commit_message'']"
    by (simp add: dict_in_def)
  have h1': "filter (\<lambda>a. \<not> dict_in a ?short)
              [''file_path'', ''branch'', ''content'', ''commit_message''] \<noteq> []"
    unfolding h1 by simp
  have h2: "filter (\<lambda>a. \<not> dict_in a new_file_data)
              [''file_path'', ''branch'', ''content'', ''commit_message''] = []"
    by (simp add: dict_in_def new_file_data_def)
  have h3: "map_of new_file_data ''file_path'' = Some (PStr ''docs/README.md'')"
    by (simp add: new_file_data_def)
  have h4: "\<not> dict_in ''post_data'' [(''sudo'', PStr ''root'')]"
    by (simp add: dict_in_def)
  note t1 = create_validates_then_posts
      [where gl = file_gitlab and p = project_42 and kw = "[]" and data = ?short,
       unfolded Let_def, THEN conjunct1, THEN mp, OF h1']
  note t2 = create_validates_then_posts
      [where gl = file_gitlab and p = project_42 and kw = "[(''sudo'', PStr ''root'')]"
         and data = new_file_data,
       unfolded Let_def, THEN conjunct2, THEN conjunct1, THEN spec, THEN mp,
       OF conjI [OF h2 conjI [OF h3 h4]]]
  have short: "create (ProjectFileManager file_gitlab project_42) (Some ?short) [] =
       ([], Inl (MissingAttributes [''branch'', ''commit_message'']))"
    using t1 by (simp only: h1)
  have posted: "fst (create (ProjectFileManager file_gitlab project_42) (Some new_file_data)
            [(''sudo'', PStr ''root'')]) =
       [\<lparr>http_method = Http_post,
         call_path = ''/projects/42/repository/files/docs%2FREADME.md'',
         arg_query_data = None,
         arg_post_data = Some [(''branch'', PStr ''main''), (''content'', PStr ''hi''),
                               (''commit_message'', PStr ''add'')],
         arg_streamed = None, arg_raw = None, arg_iterator = None,
         kwargs = [(''sudo'', PStr ''root'')]\<rparr>]"
    using t2 unfolding quote_docs_readme
    by (simp add: new_file_data_def from_parent_def project_42_def)
  show ?thesis
    by (intro conjI h1' short h2 h3 h4 posted)
qed

section \<open>What the methods return\<close>

text \<open>
  C6 says that every method issues a single HTTP call and that every operation that
  returns data returns an instance of the managed resource class (or a list or wrapper of
  instances), never a bare dictionary. \<^verbatim>\<open>ProjectFileManager.update\<close> returns the dictionary
  that the client parsed from the response, as its docstring says
  (\<^verbatim>\<open>The new object data (*not* a RESTObject)\<close>). And it issues no HTTP call at all, though
  the required keys are present, when an extra option is named \<^verbatim>\<open>post_data\<close>, the keyword
  that the method passes to \<^verbatim>\<open>http_put\<close> itself.
\<close>

theorem update_returns_dict_counterexample:
  "update (ProjectFileManager file_gitlab project_42) (PStr ''docs/README.md'')
     (Some [(''branch'', PStr ''main''), (''content'', PStr ''hi''),
            (''commit_message'', PStr ''edit'')]) [] =
     ([\<lparr>http_method = Http_put,
        call_path = ''/projects/42/repository/files/docs%2FREADME.md'',
        arg_query_data = None,
        arg_post_data = Some [(''branch'', PStr ''main''), (''content'', PStr ''hi''),
                              (''commit_message'', PStr ''edit''),
                              (''file_path'', PEncodedId ''docs%2FREADME.md'')],
        arg_streamed = None, arg_raw = None, arg_iterator = None, kwargs = []\<rparr>],
      Inr (Ret_body (JSON_dict saved_file)))
   \<and> \<not> is_resource (Ret_body (JSON_dict saved_file))
   \<and> update (ProjectFileManager file_gitlab project_42) (PStr ''docs/README.md'')
       (Some [(''branch'', PStr ''main''), (''content'', PStr ''hi''),
              (''commit_message'', PStr ''edit'')]) [(''post_data'', POther ''{}'')] =
       ([], Inl TypeError)"
  unfolding update_def
  by (simp add: http_defs Let_def on_http_error_request ProjectFileManager_def
        file_gitlab_def validate_attrs_passes ProjectFileManager_update_attrs_def map_of_dict_set
        dict_in_dict_set dict_in_Cons dict_in_def dict_set_def pass_keywords_def quote_docs_readme
        from_parent_def project_42_def)

text \<open>
  C6 as amended. Every method wrapped by \<^verbatim>\<open>on_http_error\<close> builds a path, optionally
  validates required keys, and issues a single HTTP call, provided that the file path is a
  \<^verbatim>\<open>str\<close>, the required keys of \<^verbatim>\<open>create\<close> and \<^verbatim>\<open>update\<close> are present, and no extra option has
  the name of a keyword that the method passes itself (\<^verbatim>\<open>post_data\<close> for \<^verbatim>\<open>create\<close> and
  \<^verbatim>\<open>update\<close>; \<^verbatim>\<open>query_data\<close> for \<^verbatim>\<open>delete\<close>, \<^verbatim>\<open>delete_in_bulk\<close> and \<^verbatim>\<open>raw\<close>; \<^verbatim>\<open>raw\<close> for
  \<^verbatim>\<open>raw\<close>, \<^verbatim>\<open>artifacts\<close>, \<^verbatim>\<open>artifact\<close> and \<^verbatim>\<open>trace\<close>; \<^verbatim>\<open>iterator\<close> for the milestone methods;
  \<^verbatim>\<open>file_path\<close> and \<^verbatim>\<open>query_data\<close> for \<^verbatim>\<open>ProjectFile.delete\<close>); for any arguments it issues at
  most one call. When the server answers with a JSON object, \<^verbatim>\<open>ProjectFileManager.get\<close> and
  \<^verbatim>\<open>create\<close> return an instance of \<^verbatim>\<open>ProjectFile\<close> built from it; \<^verbatim>\<open>LDAPGroupManager.list\<close>
  returns a list of \<^verbatim>\<open>LDAPGroup\<close> instances for a JSON array and a \<^verbatim>\<open>RESTObjectList\<close> wrapper
  for a lazy listing, and the milestone methods \<^verbatim>\<open>issues\<close> and \<^verbatim>\<open>merge_requests\<close> return a
  \<^verbatim>\<open>RESTObjectList\<close> wrapper. \<^verbatim>\<open>ProjectFileManager.update\<close>, \<^verbatim>\<open>blame\<close> and \<^verbatim>\<open>head\<close> and
  \<^verbatim>\<open>ProjectJob.cancel\<close> and \<^verbatim>\<open>retry\<close> return the result of the client as it is (a bare
  dictionary, a list of dictionaries, the headers), not a resource object.
\<close>

theorem returned_values:
  "(answers (gitlab m) (JSON_dict d)
        \<and> validate_attrs ProjectFileManager_create_attrs data = Inr ()
        \<and> map_of data ''file_path'' = Some (PStr s) \<and> \<not> dict_in ''post_data'' kw \<longrightarrow>
        snd (create m (Some data) kw) =
          Inr (Ret_object \<lparr>cls = ProjectFile, manager = m, attrs = d\<rparr>))
   \<and> (answers (gitlab m) (JSON_dict d)
        \<and> dict_in ''branch'' new_data \<and> dict_in ''content'' new_data
        \<and> dict_in ''commit_message'' new_data \<and> \<not> dict_in ''post_data'' kw \<longrightarrow>
        snd (update m (PStr s) (Some new_data) kw) = Inr (Ret_body (JSON_dict d)))
   \<and> (answers (gitlab m) (JSON_dict d) \<longrightarrow>
        snd (get m (PStr s) ref kw) =
          Inr (Ret_object \<lparr>cls = ProjectFile, manager = m, attrs = d\<rparr>))
   \<and> (answers (gitlab (manager self)) (JSON_dict d) \<longrightarrow>
        snd (cancel self kw) = Inr (self, Ret_body (JSON_dict d)))
   \<and> (answers (gitlab (manager self)) (JSON_dict d) \<longrightarrow>
        snd (retry self kw) = Inr (self, Ret_body (JSON_dict d)))
   \<and> (answers (gitlab m) (JSON_list items) \<longrightarrow>
        snd (list_ldap m it kw) =
          Inr (Ret_objects
                 (map (\<lambda>item. \<lparr>cls = LDAPGroup, manager = m, attrs = item\<rparr>) items)))
   \<and> (answers (gitlab m) (GitlabList items) \<longrightarrow>
        snd (list_ldap m it kw) = Inr (Ret_RESTObjectList m LDAPGroup (GitlabList items)))
   \<and> (answers (gitlab (manager self)) (GitlabList items)
        \<and> \<not> dict_in ''iterator'' kw \<longrightarrow>
        snd (GroupMilestone_issues mk self kw) =
          Inr (self, Ret_RESTObjectList (mk (gitlab (manager self)) (parent (manager self)))
                       GroupIssue (GitlabList items)))
   \<and> (answers (gitlab (manager self)) (GitlabList items)
        \<and> \<not> dict_in ''iterator'' kw \<longrightarrow>
        snd (GroupMilestone_merge_requests mk self kw) =
          Inr (self, Ret_RESTObjectList (mk (gitlab (manager self)) (parent (manager self)))
                       GroupMergeRequest (GitlabList items)))
   \<and> (answers (gitlab (manager self)) (GitlabList items)
        \<and> \<not> dict_in ''iterator'' kw \<longrightarrow>
        snd (ProjectMilestone_issues mk self kw) =
          Inr (self, Ret_RESTObjectList (mk (gitlab (manager self)) (parent (manager self)))
                       ProjectIssue (GitlabList items)))
   \<and> (answers (gitlab (manager self)) (GitlabList items)
        \<and> \<not> dict_in ''iterator'' kw \<longrightarrow>
        snd (ProjectMilestone_merge_requests mk self kw) =
          Inr (self, Ret_RESTObjectList (mk (gitlab (manager self)) (parent (manager self)))
                       ProjectMergeRequest (GitlabList items)))
   \<and> (answers (gitlab m) (JSON_list items) \<longrightarrow>
        snd (blame m (PStr s) ref kw) = Inr (Ret_body (JSON_list items)))
   \<and> (answers (gitlab m) (Headers h) \<longrightarrow>
        snd (head m (PStr s) ref kw) = Inr (Ret_body (Headers h)))
   \<and> (validate_attrs ProjectFileManager_create_attrs data = Inr ()
        \<and> map_of data ''file_path'' = Some (PStr s) \<and> \<not> dict_in ''post_data'' kw \<longrightarrow>
        length (fst (create m (Some data) kw)) = 1)
   \<and> (dict_in ''branch'' new_data \<and> dict_in ''content'' new_data
        \<and> dict_in ''commit_message'' new_data \<and> \<not> dict_in ''post_data'' kw \<longrightarrow>
        length (fst (update m (PStr s) (Some new_data) kw)) = 1)
   \<and> (\<not> dict_in ''query_data'' kw \<longrightarrow>
        length (fst (delete m (PStr s) branch commit_message kw)) = 1)
   \<and> (\<not> dict_in ''query_data'' kw \<and> \<not> dict_in ''raw'' kw \<longrightarrow>
        length (fst (raw rc m (PStr s) ref st action chunk_size it kw)) = 1)
   \<and> (map_of (attrs self) ''file_path'' = Some (PStr s)
        \<and> \<not> dict_in ''file_path'' kw \<and> \<not> dict_in ''query_data'' kw \<longrightarrow>
        length (fst (ProjectFile_delete self branch commit_message kw)) = 1)
   \<and> length (fst (get m (PStr s) ref kw)) = 1
   \<and> length (fst (head m (PStr s) ref kw)) = 1
   \<and> length (fst (blame m (PStr s) ref kw)) = 1
   \<and> length (fst (cancel self kw)) = 1
   \<and> length (fst (retry self kw)) = 1
   \<and> length (fst (play self kw)) = 1
   \<and> length (fst (erase self kw)) = 1
   \<and> length (fst (keep_artifacts self kw)) = 1
   \<and> length (fst (delete_artifacts self kw)) = 1
   \<and> (\<not> dict_in ''raw'' kw \<longrightarrow>
        length (fst (artifacts rc self st action chunk_size it kw)) = 1)
   \<and> (\<not> dict_in ''raw'' kw \<longrightarrow>
        length (fst (artifact rc self artifact_path st action chunk_size it kw)) = 1)
   \<and> (\<not> dict_in ''raw'' kw \<longrightarrow>
        length (fst (trace rc self st action chunk_size it kw)) = 1)
   \<and> (\<not> dict_in ''query_data'' kw \<longrightarrow>
        length (fst (delete_in_bulk m name_regex_delete kw)) = 1)
   \<and> length (fst (list_ldap m it kw)) = 1
   \<and> (\<not> dict_in ''iterator'' kw \<longrightarrow>
        length (fst (GroupMilestone_issues mk self kw)) = 1)
   \<and> (\<not> dict_in ''iterator'' kw \<longrightarrow>
        length (fst (GroupMilestone_merge_requests mk self kw)) = 1)
   \<and> (\<not> dict_in ''iterator'' kw \<longrightarrow>
        length (fst (ProjectMilestone_issues mk self kw)) = 1)
   \<and> (\<not> dict_in ''iterator'' kw \<longrightarrow>
        length (fst (ProjectMilestone_merge_requests mk self kw)) = 1)
   \<and> length (fst (get m fp ref kw)) \<le> 1
   \<and> length (fst (head m fp ref kw)) \<le> 1
   \<and> length (fst (blame m fp ref kw)) \<le> 1
   \<and> length (fst (create m any_data kw)) \<le> 1
   \<and> length (fst (update m fp any_data kw)) \<le> 1
   \<and> length (fst (delete m fp branch commit_message kw)) \<le> 1
   \<and> length (fst (raw rc m fp ref st action chunk_size it kw)) \<le> 1
   \<and> length (fst (ProjectFile_delete self branch commit_message kw)) \<le> 1
   \<and> length (fst (artifacts rc self st action chunk_size it kw)) \<le> 1
   \<and> length (fst (artifact rc self artifact_path st action chunk_size it kw)) \<le> 1
   \<and> length (fst (trace rc self st action chunk_size it kw)) \<le> 1
   \<and> length (fst (delete_in_bulk m name_regex_delete kw)) \<le> 1
   \<and> length (fst (GroupMilestone_issues mk self kw)) \<le> 1
   \<and> length (fst (GroupMilestone_merge_requests mk self kw)) \<le> 1
   \<and> length (fst (ProjectMilestone_issues mk self kw)) \<le> 1
   \<and> length (fst (ProjectMilestone_merge_requests mk self kw)) \<le> 1"
proof -
  have delete_most: "length (fst (delete mm fp branch commit_message kw)) \<le> 1" for mm fp
    by (simp add: delete_def http_defs Let_def fst_then_do_request fst_then_do_lift
          split: sum.splits option.splits prod.splits)
  have r_create: "answers (gitlab m) (JSON_dict d)
        \<and> validate_attrs ProjectFileManager_create_attrs data = Inr ()
        \<and> map_of data ''file_path'' = Some (PStr s) \<and> \<not> dict_in ''post_data'' kw \<longrightarrow>
        snd (create m (Some data) kw) =
          Inr (Ret_object \<lparr>cls = ProjectFile, manager = m, attrs = d\<rparr>)"
    by (simp add: create_def http_defs Let_def on_http_error_answer return_def new_object_def pop_present
          pass_keywords_def)
  have r_update: "answers (gitlab m) (JSON_dict d)
        \<and> dict_in ''branch'' new_data \<and> dict_in ''content'' new_data
        \<and> dict_in ''commit_message'' new_data \<and> \<not> dict_in ''post_data'' kw \<longrightarrow>
        snd (update m (PStr s) (Some new_data) kw) = Inr (Ret_body (JSON_dict d))"
    by (simp add: update_def http_defs Let_def on_http_error_answer return_def
          validate_attrs_passes ProjectFileManager_update_attrs_def dict_in_dict_set pass_keywords_def)
  have r_get: "answers (gitlab m) (JSON_dict d) \<longrightarrow>
        snd (get m (PStr s) ref kw) =
          Inr (Ret_object \<lparr>cls = ProjectFile, manager = m, attrs = d\<rparr>)"
    by (simp add: get_def http_defs Let_def on_http_error_answer return_def new_object_def)
  have r_cancel: "answers (gitlab (manager self)) (JSON_dict d) \<longrightarrow>
        snd (cancel self kw) = Inr (self, Ret_body (JSON_dict d))"
    by (simp add: cancel_def http_defs Let_def on_http_error_answer return_def)
  have r_retry: "answers (gitlab (manager self)) (JSON_dict d) \<longrightarrow>
        snd (retry self kw) = Inr (self, Ret_body (JSON_dict d))"
    by (simp add: retry_def http_defs Let_def on_http_error_answer return_def)
  have r_ldap_list: "answers (gitlab m) (JSON_list items) \<longrightarrow>
        snd (list_ldap m it kw) =
          Inr (Ret_objects
                 (map (\<lambda>item. \<lparr>cls = LDAPGroup, manager = m, attrs = item\<rparr>) items))"
    unfolding list_ldap_unfold by (simp add: on_http_error_answer return_def)
  have r_ldap_lazy: "answers (gitlab m) (GitlabList items) \<longrightarrow>
        snd (list_ldap m it kw) = Inr (Ret_RESTObjectList m LDAPGroup (GitlabList items))"
    unfolding list_ldap_unfold by (simp add: on_http_error_answer return_def)
  have r_GroupMilestone_issues: "answers (gitlab (manager self)) (GitlabList items)
        \<and> \<not> dict_in ''iterator'' kw \<longrightarrow>
        snd (GroupMilestone_issues mk self kw) =
          Inr (self, Ret_RESTObjectList (mk (gitlab (manager self)) (parent (manager self)))
                       GroupIssue (GitlabList items))"
    by (simp add: GroupMilestone_issues_def http_defs Let_def on_http_error_answer return_def pass_keywords_def)
  have r_GroupMilestone_merge_requests: "answers (gitlab (manager self)) (GitlabList items)
        \<and> \<not> dict_in ''iterator'' kw \<longrightarrow>
        snd (GroupMilestone_merge_requests mk self kw) =
          Inr (self, Ret_RESTObjectList (mk (gitlab (manager self)) (parent (manager self)))
                       GroupMergeRequest (GitlabList items))"
    by (simp add: GroupMilestone_merge_requests_def http_defs Let_def on_http_error_answer return_def pass_keywords_def)
  have r_ProjectMilestone_issues: "answers (gitlab (manager self)) (GitlabList items)
        \<and> \<not> dict_in ''iterator'' kw \<longrightarrow>
        snd (ProjectMilestone_issues mk self kw) =
          Inr (self, Ret_RESTObjectList (mk (gitlab (manager self)) (parent (manager self)))
                       ProjectIssue (GitlabList items))"
    by (simp add: ProjectMilestone_issues_def http_defs Let_def on_http_error_answer return_def pass_keywords_def)
  have r_ProjectMilestone_merge_requests: "answers (gitlab (manager self)) (GitlabList items)
        \<and> \<not> dict_in ''iterator'' kw \<longrightarrow>
        snd (ProjectMilestone_merge_requests mk self kw) =
          Inr (self, Ret_RESTObjectList (mk (gitlab (manager self)) (parent (manager self)))
                       ProjectMergeRequest (GitlabList items))"
    by (simp add: ProjectMilestone_merge_requests_def http_defs Let_def on_http_error_answer return_def pass_keywords_def)
  have r_blame: "answers (gitlab m) (JSON_list items) \<longrightarrow>
        snd (blame m (PStr s) ref kw) = Inr (Ret_body (JSON_list items))"
    by (simp add: blame_def http_defs Let_def on_http_error_answer return_def)
  have r_head: "answers (gitlab m) (Headers h) \<longrightarrow>
        snd (head m (PStr s) ref kw) = Inr (Ret_body (Headers h))"
    by (simp add: head_def http_defs Let_def on_http_error_answer return_def)
  have c_create: "validate_attrs ProjectFileManager_create_attrs data = Inr ()
        \<and> map_of data ''file_path'' = Some (PStr s) \<and> \<not> dict_in ''post_data'' kw \<longrightarrow>
        length (fst (create m (Some data) kw)) = 1"
    by (simp add: create_def http_defs Let_def fst_request_then fst_then_do_lift pop_present
          pass_keywords_def split: sum.splits)
  have c_update: "dict_in ''branch'' new_data \<and> dict_in ''content'' new_data
        \<and> dict_in ''commit_message'' new_data \<and> \<not> dict_in ''post_data'' kw \<longrightarrow>
        length (fst (update m (PStr s) (Some new_data) kw)) = 1"
    by (simp add: update_def http_defs Let_def fst_request_then fst_then_do_lift
          validate_attrs_passes ProjectFileManager_update_attrs_def dict_in_dict_set pass_keywords_def)
  have c_delete: "\<not> dict_in ''query_data'' kw \<longrightarrow>
        length (fst (delete m (PStr s) branch commit_message kw)) = 1"
    by (simp add: delete_def http_defs Let_def fst_request_then fst_then_do_lift pass_keywords_def)
  have c_raw: "\<not> dict_in ''query_data'' kw \<and> \<not> dict_in ''raw'' kw \<longrightarrow>
        length (fst (raw rc m (PStr s) ref st action chunk_size it kw)) = 1"
    by (simp add: raw_def http_defs Let_def fst_request_then fst_then_do_lift pass_keywords_def)
  have c_file_delete: "map_of (attrs self) ''file_path'' = Some (PStr s)
        \<and> \<not> dict_in ''file_path'' kw \<and> \<not> dict_in ''query_data'' kw \<longrightarrow>
        length (fst (ProjectFile_delete self branch commit_message kw)) = 1"
    by (simp add: ProjectFile_delete_def delete_def encoded_id_def http_defs Let_def
          fst_then_do_return http_request_def fst_request_then fst_then_do_lift pass_keywords_def)
  have c_get: "length (fst (get m (PStr s) ref kw)) = 1"
    by (simp add: get_def http_defs Let_def fst_request_then fst_then_do_lift split: sum.splits)
  have c_head: "length (fst (head m (PStr s) ref kw)) = 1"
    by (simp add: head_def http_defs Let_def fst_request_then fst_then_do_lift split: sum.splits)
  have c_blame: "length (fst (blame m (PStr s) ref kw)) = 1"
    by (simp add: blame_def http_defs Let_def fst_request_then fst_then_do_lift split: sum.splits)
  have c_cancel: "length (fst (cancel self kw)) = 1"
    by (simp add: cancel_def http_defs Let_def fst_request_then fst_then_do_lift split: sum.splits)
  have c_retry: "length (fst (retry self kw)) = 1"
    by (simp add: retry_def http_defs Let_def fst_request_then fst_then_do_lift split: sum.splits)
  have c_play: "length (fst (play self kw)) = 1"
    by (simp add: play_def http_defs Let_def fst_request_then fst_then_do_lift split: sum.splits)
  have c_erase: "length (fst (erase self kw)) = 1"
    by (simp add: erase_def http_defs Let_def fst_request_then fst_then_do_lift split: sum.splits)
  have c_keep_artifacts: "length (fst (keep_artifacts self kw)) = 1"
    by (simp add: keep_artifacts_def http_defs Let_def fst_request_then fst_then_do_lift split: sum.splits)
  have c_delete_artifacts: "length (fst (delete_artifacts self kw)) = 1"
    by (simp add: delete_artifacts_def http_defs Let_def fst_request_then fst_then_do_lift split: sum.splits)
  have c_artifacts: "\<not> dict_in ''raw'' kw \<longrightarrow>
        length (fst (artifacts rc self st action chunk_size it kw)) = 1"
    by (simp add: artifacts_def http_defs Let_def fst_request_then fst_then_do_lift pass_keywords_def
              split: sum.splits)
  have c_artifact: "\<not> dict_in ''raw'' kw \<longrightarrow>
        length (fst (artifact rc self artifact_path st action chunk_size it kw)) = 1"
    by (simp add: artifact_def http_defs Let_def fst_request_then fst_then_do_lift pass_keywords_def
              split: sum.splits)
  have c_trace: "\<not> dict_in ''raw'' kw \<longrightarrow>
        length (fst (trace rc self st action chunk_size it kw)) = 1"
    by (simp add: trace_def http_defs Let_def fst_request_then fst_then_do_lift pass_keywords_def
              split: sum.splits)
  have c_bulk: "\<not> dict_in ''query_data'' kw \<longrightarrow>
        length (fst (delete_in_bulk m name_regex_delete kw)) = 1"
    by (simp add: delete_in_bulk_def http_defs Let_def fst_request_then fst_then_do_lift pass_keywords_def)
  have c_ldap: "length (fst (list_ldap m it kw)) = 1"
    by (rule list_ldap_one_call)
  have c_GroupMilestone_issues: "\<not> dict_in ''iterator'' kw \<longrightarrow>
        length (fst (GroupMilestone_issues mk self kw)) = 1"
    by (simp add: GroupMilestone_issues_def http_defs Let_def fst_request_then fst_then_do_lift pass_keywords_def)
  have c_GroupMilestone_merge_requests: "\<not> dict_in ''iterator'' kw \<longrightarrow>
        length (fst (GroupMilestone_merge_requests mk self kw)) = 1"
    by (simp add: GroupMilestone_merge_requests_def http_defs Let_def fst_request_then fst_then_do_lift pass_keywords_def)
  have c_ProjectMilestone_issues: "\<not> dict_in ''iterator'' kw \<longrightarrow>
        length (fst (ProjectMilestone_issues mk self kw)) = 1"
    by (simp add: ProjectMilestone_issues_def http_defs Let_def fst_request_then fst_then_do_lift pass_keywords_def)
  have c_ProjectMilestone_merge_requests: "\<not> dict_in ''iterator'' kw \<longrightarrow>
        length (fst (ProjectMilestone_merge_requests mk self kw)) = 1"
    by (simp add: ProjectMilestone_merge_requests_def http_defs Let_def fst_request_then fst_then_do_lift pass_keywords_def)
  have m_get: "length (fst (get m fp ref kw)) \<le> 1"
    by (simp add: get_def http_defs Let_def fst_then_do_request fst_then_do_lift split: sum.splits option.splits prod.splits)
  have m_head: "length (fst (head m fp ref kw)) \<le> 1"
    by (simp add: head_def http_defs Let_def fst_then_do_request fst_then_do_lift split: sum.splits option.splits prod.splits)
  have m_blame: "length (fst (blame m fp ref kw)) \<le> 1"
    by (simp add: blame_def http_defs Let_def fst_then_do_request fst_then_do_lift split: sum.splits option.splits prod.splits)
  have m_create: "length (fst (create m any_data kw)) \<le> 1"
    by (simp add: create_def http_defs Let_def raise_def fst_then_do_request fst_then_do_lift
          split: sum.splits option.splits prod.splits)
  have m_update: "length (fst (update m fp any_data kw)) \<le> 1"
    by (simp add: update_def http_defs Let_def fst_then_do_request fst_then_do_lift split: sum.splits option.splits prod.splits)
  have m_raw: "length (fst (raw rc m fp ref st action chunk_size it kw)) \<le> 1"
    by (simp add: raw_def http_defs Let_def fst_then_do_request fst_then_do_lift split: sum.splits option.splits prod.splits)
  have m_file_delete: "length (fst (ProjectFile_delete self branch commit_message kw)) \<le> 1"
    using delete_most [of "manager self" "encoded_id ''file_path'' self"]
    by (simp add: ProjectFile_delete_def Let_def fst_then_do_lift fst_then_do_return
          split: sum.splits)
  have m_artifacts: "length (fst (artifacts rc self st action chunk_size it kw)) \<le> 1"
    by (simp add: artifacts_def http_defs Let_def fst_then_do_request fst_then_do_lift
              split: sum.splits option.splits prod.splits)
  have m_artifact: "length (fst (artifact rc self artifact_path st action chunk_size it kw)) \<le> 1"
    by (simp add: artifact_def http_defs Let_def fst_then_do_request fst_then_do_lift
              split: sum.splits option.splits prod.splits)
  have m_trace: "length (fst (trace rc self st action chunk_size it kw)) \<le> 1"
    by (simp add: trace_def http_defs Let_def fst_then_do_request fst_then_do_lift
              split: sum.splits option.splits prod.splits)
  have m_bulk: "length (fst (delete_in_bulk m name_regex_delete kw)) \<le> 1"
    by (simp add: delete_in_bulk_def http_defs Let_def fst_then_do_request fst_then_do_lift
          split: sum.splits option.splits prod.splits)
  have m_GroupMilestone_issues: "length (fst (GroupMilestone_issues mk self kw)) \<le> 1"
    by (simp add: GroupMilestone_issues_def http_defs Let_def fst_then_do_request fst_then_do_lift
              split: sum.splits option.splits prod.splits)
  have m_GroupMilestone_merge_requests: "length (fst (GroupMilestone_merge_requests mk self kw)) \<le> 1"
    by (simp add: GroupMilestone_merge_requests_def http_defs Let_def fst_then_do_request fst_then_do_lift
              split: sum.splits option.splits prod.splits)
  have m_ProjectMilestone_issues: "length (fst (ProjectMilestone_issues mk self kw)) \<le> 1"
    by (simp add: ProjectMilestone_issues_def http_defs Let_def fst_then_do_request fst_then_do_lift
              split: sum.splits option.splits prod.splits)
  have m_ProjectMilestone_merge_requests: "length (fst (ProjectMilestone_merge_requests mk self kw)) \<le> 1"
    by (simp add: ProjectMilestone_merge_requests_def http_defs Let_def fst_then_do_request fst_then_do_lift
              split: sum.splits option.splits prod.splits)
  show ?thesis
    by (intro conjI r_create r_update r_get r_cancel r_retry r_ldap_list r_ldap_lazy
          r_GroupMilestone_issues r_GroupMilestone_merge_requests r_ProjectMilestone_issues
          r_ProjectMilestone_merge_requests r_blame r_head c_create c_update c_delete c_raw
          c_file_delete c_get c_head c_blame c_cancel c_retry c_play c_erase c_keep_artifacts
          c_delete_artifacts c_artifacts c_artifact c_trace c_bulk c_ldap
          c_GroupMilestone_issues c_GroupMilestone_merge_requests c_ProjectMilestone_issues
          c_ProjectMilestone_merge_requests m_get m_head m_blame m_create m_update delete_most
          m_raw m_file_delete m_artifacts m_artifact m_trace m_bulk m_GroupMilestone_issues
          m_GroupMilestone_merge_requests m_ProjectMilestone_issues
          m_ProjectMilestone_merge_requests)
qed

theorem returned_values_witness:
  "answers (gitlab (ProjectFileManager file_gitlab project_42)) (JSON_dict saved_file)
   \<and> validate_attrs ProjectFileManager_create_attrs new_file_data = Inr ()
   \<and> map_of new_file_data ''file_path'' = Some (PStr ''docs/README.md'')
   \<and> dict_in ''branch'' new_file_data
   \<and> dict_in ''content'' new_file_data
   \<and> dict_in ''commit_message'' new_file_data
   \<and> map_of (attrs (readme_file file_gitlab)) ''file_path'' =
       Some (PStr ''docs/README.md'')
   \<and> \<not> dict_in ''post_data'' [(''sudo'', PStr ''root'')]
   \<and> \<not> dict_in ''query_data'' [(''sudo'', PStr ''root'')]
   \<and> \<not> dict_in ''raw'' [(''sudo'', PStr ''root'')]
   \<and> \<not> dict_in ''file_path'' [(''sudo'', PStr ''root'')]
   \<and> \<not> dict_in ''iterator'' [(''sudo'', PStr ''root'')]
   \<and> answers (gitlab (manager (running_job ok_gitlab))) (JSON_dict canceled_job)
   \<and> answers (gitlab (manager (group_milestone lazy_gitlab)))
       (GitlabList [[(''iid'', PInt 1)]])
   \<and> snd (create (ProjectFileManager file_gitlab project_42) (Some new_file_data)
            [(''sudo'', PStr ''root'')]) =
       Inr (Ret_object \<lparr>cls = ProjectFile, manager = ProjectFileManager file_gitlab project_42,
                        attrs = saved_file\<rparr>)
   \<and> snd (update (ProjectFileManager file_gitlab project_42) (PStr ''docs/README.md'')
            (Some new_file_data) [(''sudo'', PStr ''root'')]) =
       Inr (Ret_body (JSON_dict saved_file))
   \<and> snd (get (ProjectFileManager file_gitlab project_42) (PStr ''docs/README.md'')
            (PStr ''main'') [(''sudo'', PStr ''root'')]) =
       Inr (Ret_object \<lparr>cls = ProjectFile, manager = ProjectFileManager file_gitlab project_42,
                        attrs = saved_file\<rparr>)
   \<and> length (fst (create (ProjectFileManager file_gitlab project_42) (Some new_file_data)
                   [(''sudo'', PStr ''root'')])) = 1
   \<and> length (fst (update (ProjectFileManager file_gitlab project_42) (PStr ''docs/README.md'')
                   (Some new_file_data) [(''sudo'', PStr ''root'')])) = 1
   \<and> length (fst (delete (ProjectFileManager file_gitlab project_42) (PStr ''docs/README.md'')
                   (PStr ''main'') (PStr ''remove'') [(''sudo'', PStr ''root'')])) = 1
   \<and> length (fst (raw (\<lambda>result st action chunk_size it. Inr (Ret_body result))
                   (ProjectFileManager file_gitlab project_42) (PStr ''docs/README.md'')
                   (PStr ''main'') False () 1024 False [(''sudo'', PStr ''root'')])) = 1
   \<and> length (fst (ProjectFile_delete (readme_file file_gitlab) (PStr ''main'') (PStr ''remove'')
                   [(''sudo'', PStr ''root'')])) = 1
   \<and> snd (cancel (running_job ok_gitlab) [(''sudo'', PStr ''root'')]) =
       Inr (running_job ok_gitlab, Ret_body (JSON_dict canceled_job))
   \<and> length (fst (artifacts (\<lambda>result st action chunk_size it. Inr (Ret_body result))
                   (running_job ok_gitlab) False () 1024 False [(''sudo'', PStr ''root'')])) = 1
   \<and> snd (GroupMilestone_issues
            (\<lambda>gl p. \<lparr>gitlab = gl, parent = p, path = ''/groups/5/issues''\<rparr>)
            (group_milestone lazy_gitlab) [(''sudo'', PStr ''root'')]) =
       Inr (group_milestone lazy_gitlab,
            Ret_RESTObjectList
              \<lparr>gitlab = gitlab (manager (group_milestone lazy_gitlab)),
               parent = parent (manager (group_milestone lazy_gitlab)),
               path = ''/groups/5/issues''\<rparr>
              GroupIssue (GitlabList [[(''iid'', PInt 1)]]))
   \<and> length (fst (GroupMilestone_issues
                   (\<lambda>gl p. \<lparr>gitlab = gl, parent = p, path = ''/groups/5/issues''\<rparr>)
                   (group_milestone lazy_gitlab) [(''sudo'', PStr ''root'')])) = 1"
proof -
  have h1: "answers (gitlab (ProjectFileManager file_gitlab project_42)) (JSON_dict saved_file)"
    by (simp add: ProjectFileManager_def file_gitlab_def)
  have v: "validate_attrs ProjectFileManager_create_attrs new_file_data = Inr ()"
    by (simp add: validate_attrs_passes ProjectFileManager_create_attrs_def new_file_data_def
          dict_in_def)
  have fp: "map_of new_file_data ''file_path'' = Some (PStr ''docs/README.md'')"
    by (simp add: new_file_data_def)
  have k1: "dict_in ''branch'' new_file_data"
    by (simp add: new_file_data_def dict_in_def)
  have k2: "dict_in ''content'' new_file_data"
    by (simp add: new_file_data_def dict_in_def)
  have k3: "dict_in ''commit_message'' new_file_data"
    by (simp add: new_file_data_def dict_in_def)
  have sfp: "map_of (attrs (readme_file file_gitlab)) ''file_path'' =
       Some (PStr ''docs/README.md'')"
    by (simp add: readme_file_def)
  have n1: "\<not> dict_in ''post_data'' [(''sudo'', PStr ''root'')]"
    by (simp add: dict_in_def)
  have n2: "\<not> dict_in ''query_data'' [(''sudo'', PStr ''root'')]"
    by (simp add: dict_in_def)
  have n3: "\<not> dict_in ''raw'' [(''sudo'', PStr ''root'')]"
    by (simp add: dict_in_def)
  have n4: "\<not> dict_in ''file_path'' [(''sudo'', PStr ''root'')]"
    by (simp add: dict_in_def)
  have n5: "\<not> dict_in ''iterator'' [(''sudo'', PStr ''root'')]"
    by (simp add: dict_in_def)
  have h2: "answers (gitlab (manager (running_job ok_gitlab))) (JSON_dict canceled_job)"
    by (simp add: running_job_def ProjectJobManager_def ok_gitlab_def)
  have h3: "answers (gitlab (manager (group_milestone lazy_gitlab)))
       (GitlabList [[(''iid'', PInt 1)]])"
    by (simp add: group_milestone_def GroupMilestoneManager_def lazy_gitlab_def)
  note t = returned_values
      [where m = "ProjectFileManager file_gitlab project_42"
         and self = "readme_file file_gitlab" and d = saved_file
         and items = "[]" and mk = "\<lambda>gl p. \<lparr>gitlab = gl, parent = p, path = ''/groups/5/issues''\<rparr>"
         and s = "''docs/README.md''" and ref = "PStr ''main''"
         and kw = "[(''sudo'', PStr ''root'')]" and data = new_file_data
         and new_data = new_file_data
         and branch = "PStr ''main''" and commit_message = "PStr ''remove''"
         and rc = "\<lambda>result st action chunk_size it. Inr (Ret_body result)"
         and st = False and action = "()" and chunk_size = 1024 and it = False
         and artifact_path = "[]" and name_regex_delete = PNone and h = "[]"
         and fp = PNone and any_data = None]
  note t_calls = t
      [THEN conjunct2, THEN conjunct2, THEN conjunct2, THEN conjunct2, THEN conjunct2, THEN conjunct2,
       THEN conjunct2, THEN conjunct2, THEN conjunct2, THEN conjunct2, THEN conjunct2,
       THEN conjunct2, THEN conjunct2]
  note u = returned_values
      [where m = "ProjectFileManager file_gitlab project_42"
         and self = "running_job ok_gitlab" and d = canceled_job
         and items = "[]" and mk = "\<lambda>gl p. \<lparr>gitlab = gl, parent = p, path = ''/groups/5/issues''\<rparr>"
         and s = "''docs/README.md''" and ref = "PStr ''main''"
         and kw = "[(''sudo'', PStr ''root'')]" and data = new_file_data
         and new_data = new_file_data
         and branch = "PStr ''main''" and commit_message = "PStr ''remove''"
         and rc = "\<lambda>result st action chunk_size it. Inr (Ret_body result)"
         and st = False and action = "()" and chunk_size = 1024 and it = False
         and artifact_path = "[]" and name_regex_delete = PNone and h = "[]"
         and fp = PNone and any_data = None]
  note u_calls = u
      [THEN conjunct2, THEN conjunct2, THEN conjunct2, THEN conjunct2, THEN conjunct2, THEN conjunct2,
       THEN conjunct2, THEN conjunct2, THEN conjunct2, THEN conjunct2, THEN conjunct2,
       THEN conjunct2, THEN conjunct2]
  note w = returned_values
      [where m = "ProjectFileManager file_gitlab project_42"
         and self = "group_milestone lazy_gitlab" and d = saved_file
         and items = "[[(''iid'', PInt 1)]]" and mk = "\<lambda>gl p. \<lparr>gitlab = gl, parent = p, path = ''/groups/5/issues''\<rparr>"
         and s = "''docs/README.md''" and ref = "PStr ''main''"
         and kw = "[(''sudo'', PStr ''root'')]" and data = new_file_data
         and new_data = new_file_data
         and branch = "PStr ''main''" and commit_message = "PStr ''remove''"
         and rc = "\<lambda>result st action chunk_size it. Inr (Ret_body result)"
         and st = False and action = "()" and chunk_size = 1024 and it = False
         and artifact_path = "[]" and name_regex_delete = PNone and h = "[]"
         and fp = PNone and any_data = None]
  note w_calls = w
      [THEN conjunct2, THEN conjunct2, THEN conjunct2, THEN conjunct2, THEN conjunct2, THEN conjunct2,
       THEN conjunct2, THEN conjunct2, THEN conjunct2, THEN conjunct2, THEN conjunct2,
       THEN conjunct2, THEN conjunct2]
  have create: "snd (create (ProjectFileManager file_gitlab project_42) (Some new_file_data)
            [(''sudo'', PStr ''root'')]) =
       Inr (Ret_object \<lparr>cls = ProjectFile, manager = ProjectFileManager file_gitlab project_42,
                        attrs = saved_file\<rparr>)"
    by (rule t
      [THEN conjunct1, THEN mp, OF conjI [OF h1 conjI [OF v conjI [OF fp n1]]]])
  have update: "snd (update (ProjectFileManager file_gitlab project_42) (PStr ''docs/README.md'')
            (Some new_file_data) [(''sudo'', PStr ''root'')]) =
       Inr (Ret_body (JSON_dict saved_file))"
    by (rule t
      [THEN conjunct2, THEN conjunct1, THEN mp,
       OF conjI [OF h1 conjI [OF k1 conjI [OF k2 conjI [OF k3 n1]]]]])
  have get: "snd (get (ProjectFileManager file_gitlab project_42) (PStr ''docs/README.md'')
            (PStr ''main'') [(''sudo'', PStr ''root'')]) =
       Inr (Ret_object \<lparr>cls = ProjectFile, manager = ProjectFileManager file_gitlab project_42,
                        attrs = saved_file\<rparr>)"
    by (rule t
      [THEN conjunct2, THEN conjunct2, THEN conjunct1, THEN mp, OF h1])
  have create_once: "length (fst (create (ProjectFileManager file_gitlab project_42) (Some new_file_data)
                   [(''sudo'', PStr ''root'')])) = 1"
    by (rule t_calls
      [THEN conjunct1, THEN mp, OF conjI [OF v conjI [OF fp n1]]])
  have update_once: "length (fst (update (ProjectFileManager file_gitlab project_42) (PStr ''docs/README.md'')
                   (Some new_file_data) [(''sudo'', PStr ''root'')])) = 1"
    by (rule t_calls
      [THEN conjunct2, THEN conjunct1, THEN mp, OF conjI [OF k1 conjI [OF k2 conjI [OF k3 n1]]]])
  have delete_once: "length (fst (delete (ProjectFileManager file_gitlab project_42) (PStr ''docs/README.md'')
                   (PStr ''main'') (PStr ''remove'') [(''sudo'', PStr ''root'')])) = 1"
    by (rule t_calls
      [THEN conjunct2, THEN conjunct2, THEN conjunct1, THEN mp, OF n2])
  have raw_once: "length (fst (raw (\<lambda>result st action chunk_size it. Inr (Ret_body result))
                   (ProjectFileManager file_gitlab project_42) (PStr ''docs/README.md'')
                   (PStr ''main'') False () 1024 False [(''sudo'', PStr ''root'')])) = 1"
    by (rule t_calls
      [THEN conjunct2, THEN conjunct2, THEN conjunct2, THEN conjunct1, THEN mp, OF conjI [OF n2 n3]])
  have file_delete_once: "length (fst (ProjectFile_delete (readme_file file_gitlab) (PStr ''main'') (PStr ''remove'')
                   [(''sudo'', PStr ''root'')])) = 1"
    by (rule t_calls
      [THEN conjunct2, THEN conjunct2, THEN conjunct2, THEN conjunct2, THEN conjunct1, THEN mp,
       OF conjI [OF sfp conjI [OF n4 n2]]])
  have cancel: "snd (cancel (running_job ok_gitlab) [(''sudo'', PStr ''root'')]) =
       Inr (running_job ok_gitlab, Ret_body (JSON_dict canceled_job))"
    by (rule u
      [THEN conjunct2, THEN conjunct2, THEN conjunct2, THEN conjunct1, THEN mp, OF h2])
  have artifacts_once: "length (fst (artifacts (\<lambda>result st action chunk_size it. Inr (Ret_body result))
                   (running_job ok_gitlab) False () 1024 False [(''sudo'', PStr ''root'')])) = 1"
    by (rule u_calls
      [THEN conjunct2, THEN conjunct2, THEN conjunct2, THEN conjunct2, THEN conjunct2, THEN conjunct2,
       THEN conjunct2, THEN conjunct2, THEN conjunct2, THEN conjunct2, THEN conjunct2,
       THEN conjunct2, THEN conjunct2, THEN conjunct2, THEN conjunct1, THEN mp, OF n3])
  have issues: "snd (GroupMilestone_issues
            (\<lambda>gl p. \<lparr>gitlab = gl, parent = p, path = ''/groups/5/issues''\<rparr>)
            (group_milestone lazy_gitlab) [(''sudo'', PStr ''root'')]) =
       Inr (group_milestone lazy_gitlab,
            Ret_RESTObjectList
              \<lparr>gitlab = gitlab (manager (group_milestone lazy_gitlab)),
               parent = parent (manager (group_milestone lazy_gitlab)),
               path = ''/groups/5/issues''\<rparr>
              GroupIssue (GitlabList [[(''iid'', PInt 1)]]))"
    by (rule w
      [THEN conjunct2, THEN conjunct2, THEN conjunct2, THEN conjunct2, THEN conjunct2, THEN conjunct2,
       THEN conjunct2, THEN conjunct1, THEN mp, OF conjI [OF h3 n5]])
  have issues_once: "length (fst (GroupMilestone_issues
                   (\<lambda>gl p. \<lparr>gitlab = gl, parent = p, path = ''/groups/5/issues''\<rparr>)
                   (group_milestone lazy_gitlab) [(''sudo'', PStr ''root'')])) = 1"
    by (rule w_calls
      [THEN conjunct2, THEN conjunct2, THEN conjunct2, THEN conjunct2, THEN conjunct2, THEN conjunct2,
       THEN conjunct2, THEN conjunct2, THEN conjunct2, THEN conjunct2, THEN conjunct2,
       THEN conjunct2, THEN conjunct2, THEN conjunct2, THEN conjunct2, THEN conjunct2,
       THEN conjunct2, THEN conjunct2, THEN conjunct2, THEN conjunct1, THEN mp, OF n5])
  show ?thesis
    by (intro conjI h1 v fp k1 k2 k3 sfp n1 n2 n3 n4 n5 h2 h3 create update
          get create_once update_once delete_once raw_once file_delete_once cancel
          artifacts_once issues issues_once)
qed

section \<open>The attributes of an object after a response\<close>

text \<open>
  C7 says that after every operation that obtains a JSON body from the server the
  attributes of the object are that body. \<^verbatim>\<open>ProjectJob.cancel\<close> does not do so: it
  returns the body and leaves the attributes alone. A running job is canceled, the server
  answers with the canceled job, and the attributes of the object still say what they
  said before.
\<close>

theorem cancel_keeps_attrs_counterexample:
  "snd (cancel (running_job ok_gitlab) []) =
     Inr (running_job ok_gitlab, Ret_body (JSON_dict canceled_job))
   \<and> attrs (running_job ok_gitlab) \<noteq> canceled_job"
  by (simp add: cancel_def http_post_def on_http_error_request ok_gitlab_def running_job_def
        canceled_job_def ProjectJobManager_def)

text \<open>
  C7 as amended. When the server answers with a JSON object: \<^verbatim>\<open>ProjectJob.play\<close>
  replaces the attributes of the object by that JSON object, and an object that
  \<^verbatim>\<open>ProjectFileManager.get\<close> builds has it as its attributes; \<^verbatim>\<open>cancel\<close> and \<^verbatim>\<open>retry\<close>
  return the JSON object and leave the object as it was, and \<^verbatim>\<open>erase\<close> leaves the object
  as it was.
\<close>

theorem attrs_after_response:
  "(answers (gitlab (manager self)) (JSON_dict d) \<longrightarrow>
      snd (play self kw) = Inr (self\<lparr>attrs := d\<rparr>, Ret_None))
   \<and> (answers (gitlab m) (JSON_dict d) \<longrightarrow>
        snd (get m (PStr s) ref kw) =
          Inr (Ret_object \<lparr>cls = ProjectFile, manager = m, attrs = d\<rparr>))
   \<and> (answers (gitlab (manager self)) (JSON_dict d) \<longrightarrow>
        snd (cancel self kw) = Inr (self, Ret_body (JSON_dict d)))
   \<and> (answers (gitlab (manager self)) (JSON_dict d) \<longrightarrow>
        snd (retry self kw) = Inr (self, Ret_body (JSON_dict d)))
   \<and> (answers (gitlab (manager self)) (JSON_dict d) \<longrightarrow>
        snd (erase self kw) = Inr (self, Ret_None))"
proof -
  have a: "answers (gitlab (manager self)) (JSON_dict d) \<longrightarrow>
      snd (play self kw) = Inr (self\<lparr>attrs := d\<rparr>, Ret_None)"
    by (simp add: play_def http_defs Let_def on_http_error_answer update_attrs_def return_def)
  have b: "answers (gitlab m) (JSON_dict d) \<longrightarrow>
        snd (get m (PStr s) ref kw) =
          Inr (Ret_object \<lparr>cls = ProjectFile, manager = m, attrs = d\<rparr>)"
    by (simp add: get_def http_defs Let_def on_http_error_answer new_object_def return_def)
  have c: "answers (gitlab (manager self)) (JSON_dict d) \<longrightarrow>
        snd (cancel self kw) = Inr (self, Ret_body (JSON_dict d))"
    by (simp add: cancel_def http_defs Let_def on_http_error_answer return_def)
  have d: "answers (gitlab (manager self)) (JSON_dict d) \<longrightarrow>
        snd (retry self kw) = Inr (self, Ret_body (JSON_dict d))"
    by (simp add: retry_def http_defs Let_def on_http_error_answer return_def)
  have e: "answers (gitlab (manager self)) (JSON_dict d) \<longrightarrow>
        snd (erase self kw) = Inr (self, Ret_None)"
    by (simp add: erase_def http_defs Let_def on_http_error_answer return_def)
  show ?thesis
    by (intro conjI a b c d e)
qed

theorem attrs_after_response_witness:
  "answers (gitlab (manager (running_job ok_gitlab))) (JSON_dict canceled_job)
   \<and> snd (play (running_job ok_gitlab) []) =
       Inr ((running_job ok_gitlab)\<lparr>attrs := canceled_job\<rparr>, Ret_None)
   \<and> attrs (fst (projr (snd (play (running_job ok_gitlab) [])))) = canceled_job"
proof -
  have h: "answers (gitlab (manager (running_job ok_gitlab))) (JSON_dict canceled_job)"
    by (simp add: running_job_def ProjectJobManager_def ok_gitlab_def)
  from attrs_after_response [of "running_job ok_gitlab" canceled_job "[]"] h
  have "snd (play (running_job ok_gitlab) []) =
          Inr ((running_job ok_gitlab)\<lparr>attrs := canceled_job\<rparr>, Ret_None)"
    by blast
  with h show ?thesis by simp
qed

section \<open>Listing LDAP groups\<close>

text \<open>
  C8. \<^verbatim>\<open>LDAPGroupManager.list\<close> issues one call of \<^verbatim>\<open>http_list\<close>. Its path is
  \<^verbatim>\<open>/ldap/{provider}/groups\<close> when the options have a \<^verbatim>\<open>provider\<close> and \<^verbatim>\<open>/ldap/groups\<close>
  otherwise. The options are forwarded; when the caller gave no \<^verbatim>\<open>per_page\<close> and the
  client has one (\<^verbatim>\<open>if self.gitlab.per_page\<close>: set and not zero), \<^verbatim>\<open>per_page\<close> is the
  client's value. The result is the list of \<^verbatim>\<open>LDAPGroup\<close> objects built from the items
  when the client returns a list, and a \<^verbatim>\<open>RESTObjectList\<close> around what the client
  returned otherwise.
\<close>

theorem list_ldap_request_and_result:
  "(let gl = gitlab m;
        data = (if truthy (per_page gl)
                then dict_setdefault ''per_page'' (PInt (the (per_page gl))) kw else kw);
        c = \<lparr>http_method = Http_list,
             call_path = (if dict_in ''provider'' kw
                          then ''/ldap/'' @ str_of (the (map_of kw ''provider'')) @ ''/groups''
                          else ''/ldap/groups''),
             arg_query_data = None, arg_post_data = None, arg_streamed = None, arg_raw = None,
             arg_iterator = Some it, kwargs = data\<rparr>
    in fst (list_ldap m it kw) = [c]
       \<and> map_of data ''per_page'' =
           (case map_of kw ''per_page'' of
              Some v \<Rightarrow> Some v
            | None \<Rightarrow> (case per_page gl of
                         None \<Rightarrow> None
                       | Some n \<Rightarrow> if n = 0 then None else Some (PInt n)))
       \<and> (\<forall>k. k \<noteq> ''per_page'' \<longrightarrow> map_of data k = map_of kw k)
       \<and> (\<forall>items. server gl c = Inr (JSON_list items) \<longrightarrow>
              snd (list_ldap m it kw) =
                Inr (Ret_objects
                       (map (\<lambda>item. \<lparr>cls = LDAPGroup, manager = m, attrs = item\<rparr>) items)))
       \<and> (\<forall>b. server gl c = Inr b \<and> (\<forall>items. b \<noteq> JSON_list items) \<longrightarrow>
              snd (list_ldap m it kw) = Inr (Ret_RESTObjectList m LDAPGroup b))
       \<and> (\<forall>e. server gl c = Inl e \<longrightarrow>
              snd (list_ldap m it kw) = Inl (http_error_as GitlabListError e)))"
proof -
  define gl where "gl = gitlab m"
  define data where
    "data = (if truthy (per_page gl)
             then dict_setdefault ''per_page'' (PInt (the (per_page gl))) kw else kw)"
  define c where
    "c = \<lparr>http_method = Http_list,
          call_path = (if dict_in ''provider'' kw
                       then ''/ldap/'' @ str_of (the (map_of kw ''provider'')) @ ''/groups''
                       else ''/ldap/groups''),
          arg_query_data = None, arg_post_data = None, arg_streamed = None, arg_raw = None,
          arg_iterator = Some it, kwargs = data\<rparr>"
  have unfold: "list_ldap m it kw =
     on_http_error GitlabListError
       (then_do (http_request gl c)
          (\<lambda>obj. case obj of
                    JSON_list items \<Rightarrow>
                      return (Ret_objects
                                (map (\<lambda>item. \<lparr>cls = LDAPGroup, manager = m, attrs = item\<rparr>) items))
                  | _ \<Rightarrow> return (Ret_RESTObjectList m LDAPGroup obj)))"
    by (simp only: list_ldap_unfold c_def data_def gl_def)
  have calls: "fst (list_ldap m it kw) = [c]"
    unfolding unfold by (simp add: fst_request_then split: body.splits)
  have pp: "map_of data ''per_page'' =
           (case map_of kw ''per_page'' of
              Some v \<Rightarrow> Some v
            | None \<Rightarrow> (case per_page gl of
                         None \<Rightarrow> None
                       | Some n \<Rightarrow> if n = 0 then None else Some (PInt n)))"
    by (simp add: data_def truthy_def map_of_dict_setdefault split: option.splits)
  have other: "\<forall>k. k \<noteq> ''per_page'' \<longrightarrow> map_of data k = map_of kw k"
    by (simp add: data_def map_of_dict_setdefault split: option.splits)
  have items: "\<forall>items. server gl c = Inr (JSON_list items) \<longrightarrow>
              snd (list_ldap m it kw) =
                Inr (Ret_objects
                       (map (\<lambda>item. \<lparr>cls = LDAPGroup, manager = m, attrs = item\<rparr>) items))"
    unfolding unfold by (simp add: on_http_error_answer return_def)
  have wrapper: "\<forall>b. server gl c = Inr b \<and> (\<forall>items. b \<noteq> JSON_list items) \<longrightarrow>
              snd (list_ldap m it kw) = Inr (Ret_RESTObjectList m LDAPGroup b)"
    unfolding unfold by (auto simp add: on_http_error_answer return_def split: body.splits)
  have err: "\<forall>e. server gl c = Inl e \<longrightarrow>
              snd (list_ldap m it kw) = Inl (http_error_as GitlabListError e)"
    unfolding unfold by (simp add: on_http_error_failing)
  show ?thesis
    unfolding Let_def using calls pp other items wrapper err
    by (simp only: gl_def data_def c_def)
qed

theorem list_ldap_request_and_result_witness:
  "server (gitlab (LDAPGroupManager listing_gitlab))
     \<lparr>http_method = Http_list, call_path = ''/ldap/ldapmain/groups'',
      arg_query_data = None, arg_post_data = None, arg_streamed = None, arg_raw = None,
      arg_iterator = Some False,
      kwargs = [(''provider'', PStr ''ldapmain''), (''per_page'', PInt 20)]\<rparr> =
     Inr (JSON_list [[(''cn'', PStr ''admins'')]])
   \<and> list_ldap (LDAPGroupManager listing_gitlab) False [(''provider'', PStr ''ldapmain'')] =
       ([\<lparr>http_method = Http_list, call_path = ''/ldap/ldapmain/groups'',
          arg_query_data = None, arg_post_data = None, arg_streamed = None, arg_raw = None,
          arg_iterator = Some False,
          kwargs = [(''provider'', PStr ''ldapmain''), (''per_page'', PInt 20)]\<rparr>],
        Inr (Ret_objects [\<lparr>cls = LDAPGroup, manager = LDAPGroupManager listing_gitlab,
                           attrs = [(''cn'', PStr ''admins'')]\<rparr>]))"
  using list_ldap_request_and_result
          [of "LDAPGroupManager listing_gitlab" "[(''provider'', PStr ''ldapmain'')]" False]
  by (simp add: Let_def LDAPGroupManager_def listing_gitlab_def truthy_def dict_setdefault_def
        dict_in_def prod_eq_iff)

section \<open>File paths in request paths\<close>

text \<open>
  C9. Every operation of \<^verbatim>\<open>ProjectFileManager\<close> that takes a file path (\<^verbatim>\<open>get\<close>, \<^verbatim>\<open>head\<close>,
  \<^verbatim>\<open>create\<close>, \<^verbatim>\<open>update\<close>, \<^verbatim>\<open>delete\<close>, \<^verbatim>\<open>raw\<close>, \<^verbatim>\<open>blame\<close>) passes it through
  \<^verbatim>\<open>EncodedId\<close> before it goes into the request path. For a file path given as a \<^verbatim>\<open>str\<close>,
  \<^verbatim>\<open>get\<close>, \<^verbatim>\<open>head\<close> and \<^verbatim>\<open>blame\<close> issue one call, whose path is the path of the manager, a
  \<^verbatim>\<open>/\<close>, the URL-encoded file path, and the suffix of the operation. So do \<^verbatim>\<open>create\<close> and
  \<^verbatim>\<open>update\<close> when the required keys are present and \<^verbatim>\<open>delete\<close> and \<^verbatim>\<open>raw\<close>, for extra
  options that do not have the name of a keyword the operation passes itself
  (\<^verbatim>\<open>post_data\<close>, \<^verbatim>\<open>query_data\<close>, \<^verbatim>\<open>raw\<close>); otherwise these four issue no call at all. The
  encoded file path consists of unreserved characters and \<^verbatim>\<open>%\<close> only; no \<^verbatim>\<open>/\<close> of the file
  path is left in it.
\<close>

theorem file_path_is_encoded:
  "map call_path (fst (get m (PStr s) ref kw)) = [path m @ ''/'' @ quote s]
   \<and> map call_path (fst (head m (PStr s) ref kw)) = [path m @ ''/'' @ quote s]
   \<and> map call_path (fst (blame m (PStr s) ref kw)) = [path m @ ''/'' @ quote s @ ''/blame'']
   \<and> (validate_attrs ProjectFileManager_create_attrs data = Inr ()
        \<and> map_of data ''file_path'' = Some (PStr s) \<and> \<not> dict_in ''post_data'' kw \<longrightarrow>
        map call_path (fst (create m (Some data) kw)) = [path m @ ''/'' @ quote s])
   \<and> (dict_in ''branch'' new_data \<and> dict_in ''content'' new_data
        \<and> dict_in ''commit_message'' new_data \<and> \<not> dict_in ''post_data'' kw \<longrightarrow>
        map call_path (fst (update m (PStr s) (Some new_data) kw)) = [path m @ ''/'' @ quote s])
   \<and> (\<not> dict_in ''query_data'' kw \<longrightarrow>
        map call_path (fst (delete m (PStr s) branch commit_message kw)) =
          [path m @ ''/'' @ quote s])
   \<and> (\<not> dict_in ''query_data'' kw \<and> \<not> dict_in ''raw'' kw \<longrightarrow>
        map call_path (fst (raw rc m (PStr s) ref st action chunk_size it kw)) =
          [path m @ ''/'' @ quote s @ ''/raw''])
   \<and> (validate_attrs ProjectFileManager_create_attrs data \<noteq> Inr ()
        \<or> dict_in ''post_data'' kw \<longrightarrow>
        fst (create m (Some data) kw) = [])
   \<and> (\<not> (dict_in ''branch'' new_data \<and> dict_in ''content'' new_data
            \<and> dict_in ''commit_message'' new_data) \<or> dict_in ''post_data'' kw \<longrightarrow>
        fst (update m (PStr s) (Some new_data) kw) = [])
   \<and> fst (update m (PStr s) None kw) = []
   \<and> (dict_in ''query_data'' kw \<longrightarrow>
        fst (delete m (PStr s) branch commit_message kw) = [])
   \<and> (dict_in ''query_data'' kw \<or> dict_in ''raw'' kw \<longrightarrow>
        fst (raw rc m (PStr s) ref st action chunk_size it kw) = [])
   \<and> (\<forall>c \<in> set (quote s). unreserved c \<or> c = CHR ''%'')
   \<and> CHR ''/'' \<notin> set (quote s)"
proof -
  have upd: "validate_attrs ProjectFileManager_update_attrs
               (dict_set ''file_path'' (PEncodedId (quote s)) d) =
             (if dict_in ''branch'' d \<and> dict_in ''content'' d \<and> dict_in ''commit_message'' d
              then Inr ()
              else validate_attrs ProjectFileManager_update_attrs
                     (dict_set ''file_path'' (PEncodedId (quote s)) d))" for d
    by (simp add: validate_attrs_passes ProjectFileManager_update_attrs_def dict_in_dict_set)
  have upd_fails: "\<not> (dict_in ''branch'' d \<and> dict_in ''content'' d \<and> dict_in ''commit_message'' d)
             \<Longrightarrow> \<exists>e. validate_attrs ProjectFileManager_update_attrs
                      (dict_set ''file_path'' (PEncodedId (quote s)) d) = Inl e" for d
    by (auto simp add: validate_attrs_def ProjectFileManager_update_attrs_def dict_in_dict_set
          Let_def)
  have a: "map call_path (fst (get m (PStr s) ref kw)) = [path m @ ''/'' @ quote s]"
    by (simp add: get_def http_defs Let_def fst_request_then fst_then_do_lift split: sum.splits)
  have b: "map call_path (fst (head m (PStr s) ref kw)) = [path m @ ''/'' @ quote s]"
    by (simp add: head_def http_defs Let_def fst_request_then)
  have c: "map call_path (fst (blame m (PStr s) ref kw)) = [path m @ ''/'' @ quote s @ ''/blame'']"
    by (simp add: blame_def http_defs Let_def fst_request_then)
  have d: "validate_attrs ProjectFileManager_create_attrs data = Inr ()
        \<and> map_of data ''file_path'' = Some (PStr s) \<and> \<not> dict_in ''post_data'' kw \<longrightarrow>
        map call_path (fst (create m (Some data) kw)) = [path m @ ''/'' @ quote s]"
    by (simp add: create_def http_defs Let_def fst_request_then fst_then_do_lift pop_present
          pass_keywords_def split: sum.splits)
  have e: "dict_in ''branch'' new_data \<and> dict_in ''content'' new_data
        \<and> dict_in ''commit_message'' new_data \<and> \<not> dict_in ''post_data'' kw \<longrightarrow>
        map call_path (fst (update m (PStr s) (Some new_data) kw)) = [path m @ ''/'' @ quote s]"
    by (simp add: update_def http_defs Let_def fst_request_then upd pass_keywords_def)
  have f: "\<not> dict_in ''query_data'' kw \<longrightarrow>
        map call_path (fst (delete m (PStr s) branch commit_message kw)) =
          [path m @ ''/'' @ quote s]"
    by (simp add: delete_def http_defs Let_def fst_request_then pass_keywords_def)
  have g: "\<not> dict_in ''query_data'' kw \<and> \<not> dict_in ''raw'' kw \<longrightarrow>
        map call_path (fst (raw rc m (PStr s) ref st action chunk_size it kw)) =
          [path m @ ''/'' @ quote s @ ''/raw'']"
    by (simp add: raw_def http_defs Let_def fst_request_then pass_keywords_def)
  have d': "validate_attrs ProjectFileManager_create_attrs data \<noteq> Inr ()
        \<or> dict_in ''post_data'' kw \<longrightarrow>
        fst (create m (Some data) kw) = []"
    by (auto simp add: create_def Let_def fst_then_do_lift pass_keywords_def
          split: sum.splits prod.splits)
  have e': "\<not> (dict_in ''branch'' new_data \<and> dict_in ''content'' new_data
            \<and> dict_in ''commit_message'' new_data) \<or> dict_in ''post_data'' kw \<longrightarrow>
        fst (update m (PStr s) (Some new_data) kw) = []"
    using upd_fails [of new_data]
    by (auto simp add: update_def Let_def fst_then_do_lift pass_keywords_def split: sum.splits)
  have e'': "fst (update m (PStr s) None kw) = []"
    using upd_fails [of "[]"]
    by (auto simp add: update_def Let_def fst_then_do_lift dict_in_def split: sum.splits)
  have f': "dict_in ''query_data'' kw \<longrightarrow>
        fst (delete m (PStr s) branch commit_message kw) = []"
    by (simp add: delete_def Let_def pass_keywords_def)
  have g': "dict_in ''query_data'' kw \<or> dict_in ''raw'' kw \<longrightarrow>
        fst (raw rc m (PStr s) ref st action chunk_size it kw) = []"
    by (auto simp add: raw_def Let_def pass_keywords_def)
  have h: "\<forall>c \<in> set (quote s). unreserved c \<or> c = CHR ''%''"
    by (simp add: quote_safe)
  have i: "CHR ''/'' \<notin> set (quote s)"
    by (rule slash_not_in_quote)
  show ?thesis
    by (intro conjI a b c d e f g d' e' e'' f' g' h i)
qed

theorem file_path_is_encoded_witness:
  "validate_attrs ProjectFileManager_create_attrs new_file_data = Inr ()
   \<and> map_of new_file_data ''file_path'' = Some (PStr ''docs/README.md'')
   \<and> dict_in ''branch'' new_file_data
   \<and> dict_in ''content'' new_file_data
   \<and> dict_in ''commit_message'' new_file_data
   \<and> \<not> dict_in ''post_data'' [(''sudo'', PStr ''root'')]
   \<and> \<not> dict_in ''query_data'' [(''sudo'', PStr ''root'')]
   \<and> \<not> dict_in ''raw'' [(''sudo'', PStr ''root'')]
   \<and> map call_path
       (fst (get (ProjectFileManager ok_gitlab project_42) (PStr ''docs/README.md'')
               (PStr ''main'') [(''sudo'', PStr ''root'')])) =
       [''/projects/42/repository/files/docs%2FREADME.md'']
   \<and> map call_path
       (fst (create (ProjectFileManager ok_gitlab project_42) (Some new_file_data)
               [(''sudo'', PStr ''root'')])) =
       [''/projects/42/repository/files/docs%2FREADME.md'']
   \<and> map call_path
       (fst (update (ProjectFileManager ok_gitlab project_42) (PStr ''docs/README.md'')
               (Some new_file_data) [(''sudo'', PStr ''root'')])) =
       [''/projects/42/repository/files/docs%2FREADME.md'']
   \<and> map call_path
       (fst (delete (ProjectFileManager ok_gitlab project_42) (PStr ''docs/README.md'')
               (PStr ''main'') (PStr ''remove'') [(''sudo'', PStr ''root'')])) =
       [''/projects/42/repository/files/docs%2FREADME.md'']
   \<and> map call_path
       (fst (raw (\<lambda>result st action chunk_size it. Inr (Ret_body result))
               (ProjectFileManager ok_gitlab project_42) (PStr ''docs/README.md'')
               (PStr ''main'') False () 1024 False [(''sudo'', PStr ''root'')])) =
       [''/projects/42/repository/files/docs%2FREADME.md/raw'']
   \<and> CHR ''/'' \<notin> set (quote ''docs/README.md'')"
proof -
  have p: "path (ProjectFileManager ok_gitlab project_42) = ''/projects/42/repository/files''"
    by (simp add: ProjectFileManager_def from_parent_def project_42_def)
  have v: "validate_attrs ProjectFileManager_create_attrs new_file_data = Inr ()"
    by (simp add: validate_attrs_passes ProjectFileManager_create_attrs_def new_file_data_def
          dict_in_def)
  have fp: "map_of new_file_data ''file_path'' = Some (PStr ''docs/README.md'')"
    by (simp add: new_file_data_def)
  have k1: "dict_in ''branch'' new_file_data"
    by (simp add: new_file_data_def dict_in_def)
  have k2: "dict_in ''content'' new_file_data"
    by (simp add: new_file_data_def dict_in_def)
  have k3: "dict_in ''commit_message'' new_file_data"
    by (simp add: new_file_data_def dict_in_def)
  have n1: "\<not> dict_in ''post_data'' [(''sudo'', PStr ''root'')]"
    by (simp add: dict_in_def)
  have n2: "\<not> dict_in ''query_data'' [(''sudo'', PStr ''root'')]"
    by (simp add: dict_in_def)
  have n3: "\<not> dict_in ''raw'' [(''sudo'', PStr ''root'')]"
    by (simp add: dict_in_def)
  note t = file_path_is_encoded
             [where m = "ProjectFileManager ok_gitlab project_42" and s = "''docs/README.md''"
                and ref = "PStr ''main''" and kw = "[(''sudo'', PStr ''root'')]"
                and data = new_file_data and new_data = new_file_data
                and branch = "PStr ''main''" and commit_message = "PStr ''remove''"
                and rc = "\<lambda>result st action chunk_size it. Inr (Ret_body result)"
                and st = False and action = "()" and chunk_size = 1024 and it = False,
              unfolded p quote_docs_readme]
  note t3 = t [THEN conjunct2, THEN conjunct2, THEN conjunct2]
  note t4 = t3 [THEN conjunct2]
  note t5 = t4 [THEN conjunct2]
  note t6 = t5 [THEN conjunct2]
  have get: "map call_path
       (fst (get (ProjectFileManager ok_gitlab project_42) (PStr ''docs/README.md'')
               (PStr ''main'') [(''sudo'', PStr ''root'')])) =
       [''/projects/42/repository/files/docs%2FREADME.md'']"
    using t [THEN conjunct1] by simp
  have create: "map call_path
       (fst (create (ProjectFileManager ok_gitlab project_42) (Some new_file_data)
               [(''sudo'', PStr ''root'')])) =
       [''/projects/42/repository/files/docs%2FREADME.md'']"
    using t3 [THEN conjunct1, THEN mp, OF conjI [OF v conjI [OF fp n1]]] by simp
  have update: "map call_path
       (fst (update (ProjectFileManager ok_gitlab project_42) (PStr ''docs/README.md'')
               (Some new_file_data) [(''sudo'', PStr ''root'')])) =
       [''/projects/42/repository/files/docs%2FREADME.md'']"
    using t4 [THEN conjunct1, THEN mp, OF conjI [OF k1 conjI [OF k2 conjI [OF k3 n1]]]] by simp
  have delete: "map call_path
       (fst (delete (ProjectFileManager ok_gitlab project_42) (PStr ''docs/README.md'')
               (PStr ''main'') (PStr ''remove'') [(''sudo'', PStr ''root'')])) =
       [''/projects/42/repository/files/docs%2FREADME.md'']"
    using t5 [THEN conjunct1, THEN mp, OF n2] by simp
  have raw: "map call_path
       (fst (raw (\<lambda>result st action chunk_size it. Inr (Ret_body result))
               (ProjectFileManager ok_gitlab project_42) (PStr ''docs/README.md'')
               (PStr ''main'') False () 1024 False [(''sudo'', PStr ''root'')])) =
       [''/projects/42/repository/files/docs%2FREADME.md/raw'']"
    using t6 [THEN conjunct1, THEN mp, OF conjI [OF n2 n3]] by simp
  have slash: "CHR ''/'' \<notin> set (quote ''docs/README.md'')"
    unfolding quote_docs_readme by simp
  show ?thesis
    by (intro conjI v fp k1 k2 k3 n1 n2 n3 get create update delete raw slash)
qed

section \<open>Decoding the content of a file\<close>

text \<open>
  C10. \<^verbatim>\<open>ProjectFile.decode\<close> returns the base64 decoding of the \<^verbatim>\<open>content\<close> attribute of
  the object. So an object whose content is the base64 encoding of a byte string \<open>b\<close>
  decodes to \<open>b\<close>. The call issues no HTTP request and leaves the object as it was.
\<close>

theorem decode_is_b64decode_of_content:
  "(getattr self ''content'' = Inr v \<longrightarrow>
      ProjectFile_decode self =
        ([], case b64decode v of Inl e \<Rightarrow> Inl e | Inr b \<Rightarrow> Inr (self, Ret_bytes b)))
   \<and> (map_of (attrs self) ''content'' = Some (PStr (b64encode b)) \<longrightarrow>
        ProjectFile_decode self = ([], Inr (self, Ret_bytes b)))"
  by (auto simp add: ProjectFile_decode_def getattr_def return_def b64decode_b64encode
           split: sum.splits)

lemma b64encode_hi: "b64encode [104, 105] = ''aGk=''"
  by code_simp

theorem decode_is_b64decode_of_content_witness:
  "map_of (attrs (readme_file ok_gitlab)) ''content'' = Some (PStr (b64encode [104, 105]))
   \<and> ProjectFile_decode (readme_file ok_gitlab) =
       ([], Inr (readme_file ok_gitlab, Ret_bytes [104, 105]))"
proof -
  have h: "map_of (attrs (readme_file ok_gitlab)) ''content'' = Some (PStr (b64encode [104, 105]))"
    unfolding b64encode_hi by (simp add: readme_file_def)
  with decode_is_b64decode_of_content [of "readme_file ok_gitlab" "PStr ''aGk=''" "[104, 105]"]
  show ?thesis by blast
qed

end
